theory Spec2Isabelle
  imports Complex_Main
begin

section \<open>Numbers, points and matrices\<close>

text \<open>
  The source computes with numpy arrays of three float64 components. The embedding
  idealises a finite float as a real number (no rounding, no signed zero) and keeps the
  three non-finite values that numpy's scalar arithmetic produces instead of raising:
  a numpy division by zero gives \<open>nan\<close> or an infinity together with a warning, never an
  exception. Input coordinates are finite, hence of type \<open>real\<close>; a value that has
  passed through a numpy division is an \<open>npfloat\<close>.
\<close>

datatype npfloat = Finite real | PosInf | NegInf | NaN

text \<open>
  The exceptions of the source are values. \<open>NonFinite\<close> is not a Python exception: it
  marks the one place where the embedding stops following numpy, a reference polyhedron
  without points, whose perfect geometry has \<open>nan\<close> coordinates.
\<close>

datatype error =
  IndexError | ZeroDivisionError | ValueError | TypeError | AttributeError | NonFinite

datatype vec3 = Vec3 real real real

datatype matrix = Matrix vec3 vec3 vec3

datatype npvec3 = NpVec3 npfloat npfloat npfloat

fun np_add :: "npfloat \<Rightarrow> npfloat \<Rightarrow> npfloat" where
  "np_add NaN _ = NaN"
| "np_add _ NaN = NaN"
| "np_add (Finite a) (Finite b) = Finite (a + b)"
| "np_add PosInf NegInf = NaN"
| "np_add NegInf PosInf = NaN"
| "np_add PosInf _ = PosInf"
| "np_add _ PosInf = PosInf"
| "np_add NegInf _ = NegInf"
| "np_add _ NegInf = NegInf"

fun np_neg :: "npfloat \<Rightarrow> npfloat" where
  "np_neg (Finite a) = Finite (- a)"
| "np_neg PosInf = NegInf"
| "np_neg NegInf = PosInf"
| "np_neg NaN = NaN"

definition np_sub :: "npfloat \<Rightarrow> npfloat \<Rightarrow> npfloat" where
  "np_sub a b = np_add a (np_neg b)"

text \<open>The sign of an infinity times, or divided by, a finite non-zero number.\<close>

definition signed_inf :: "bool \<Rightarrow> npfloat" where
  "signed_inf positive = (if positive then PosInf else NegInf)"

fun np_mul :: "npfloat \<Rightarrow> npfloat \<Rightarrow> npfloat" where
  "np_mul NaN _ = NaN"
| "np_mul _ NaN = NaN"
| "np_mul (Finite a) (Finite b) = Finite (a * b)"
| "np_mul PosInf (Finite b) = (if b = 0 then NaN else signed_inf (0 < b))"
| "np_mul NegInf (Finite b) = (if b = 0 then NaN else signed_inf (b < 0))"
| "np_mul (Finite a) PosInf = (if a = 0 then NaN else signed_inf (0 < a))"
| "np_mul (Finite a) NegInf = (if a = 0 then NaN else signed_inf (a < 0))"
| "np_mul PosInf PosInf = PosInf"
| "np_mul NegInf NegInf = PosInf"
| "np_mul PosInf NegInf = NegInf"
| "np_mul NegInf PosInf = NegInf"

text \<open>
  numpy's float64 division: a zero divisor gives \<open>nan\<close> for \<open>0 / 0\<close> and an infinity
  otherwise. The divisors of the source are sums of squares, so the zero is \<open>+0.0\<close>.
\<close>

fun np_div :: "npfloat \<Rightarrow> npfloat \<Rightarrow> npfloat" where
  "np_div NaN _ = NaN"
| "np_div _ NaN = NaN"
| "np_div (Finite a) (Finite b) =
     (if b = 0 then (if a = 0 then NaN else signed_inf (0 < a)) else Finite (a / b))"
| "np_div (Finite a) _ = Finite 0"
| "np_div PosInf (Finite b) = signed_inf (0 \<le> b)"
| "np_div NegInf (Finite b) = signed_inf (b < 0)"
| "np_div _ _ = NaN"

fun dot :: "vec3 \<Rightarrow> vec3 \<Rightarrow> real" where
  "dot (Vec3 a1 a2 a3) (Vec3 b1 b2 b3) = a1 * b1 + a2 * b2 + a3 * b3"

fun vsub :: "vec3 \<Rightarrow> vec3 \<Rightarrow> vec3" where
  "vsub (Vec3 a1 a2 a3) (Vec3 b1 b2 b3) = Vec3 (a1 - b1) (a2 - b2) (a3 - b3)"

fun vadd :: "vec3 \<Rightarrow> vec3 \<Rightarrow> vec3" where
  "vadd (Vec3 a1 a2 a3) (Vec3 b1 b2 b3) = Vec3 (a1 + b1) (a2 + b2) (a3 + b3)"

fun vscale :: "real \<Rightarrow> vec3 \<Rightarrow> vec3" where
  "vscale c (Vec3 a1 a2 a3) = Vec3 (c * a1) (c * a2) (c * a3)"

definition zeros3 :: vec3 where
  "zeros3 = Vec3 0 0 0"

text \<open>\<open>scaling_factor * rotated_coords[ip]\<close>: a numpy scalar times an array.\<close>

fun np_scale :: "npfloat \<Rightarrow> vec3 \<Rightarrow> npvec3" where
  "np_scale s (Vec3 a1 a2 a3) =
     NpVec3 (np_mul s (Finite a1)) (np_mul s (Finite a2)) (np_mul s (Finite a3))"

text \<open>\<open>diff = pp - rotated_coords[ip]\<close> followed by \<open>np.sum(diff * diff)\<close>.\<close>

fun np_diff :: "vec3 \<Rightarrow> npvec3 \<Rightarrow> npvec3" where
  "np_diff (Vec3 p1 p2 p3) (NpVec3 r1 r2 r3) =
     NpVec3 (np_sub (Finite p1) r1) (np_sub (Finite p2) r2) (np_sub (Finite p3) r3)"

fun np_sumsq :: "npvec3 \<Rightarrow> npfloat" where
  "np_sumsq (NpVec3 d1 d2 d3) = np_add (np_add (np_mul d1 d1) (np_mul d2 d2)) (np_mul d3 d3)"

text \<open>
  \<open>np.allclose(a, b)\<close> with numpy's default tolerances: every component satisfies
  \<open>|a - b| \<le> atol + rtol * |b|\<close> with \<open>atol = 1e-8\<close> and \<open>rtol = 1e-5\<close>.
\<close>

definition isclose :: "real \<Rightarrow> real \<Rightarrow> bool" where
  "isclose a b = (\<bar>a - b\<bar> \<le> 1 / 100000000 + (1 / 100000) * \<bar>b\<bar>)"

fun allclose :: "vec3 \<Rightarrow> vec3 \<Rightarrow> bool" where
  "allclose (Vec3 a1 a2 a3) (Vec3 b1 b2 b3) = (isclose a1 b1 \<and> isclose a2 b2 \<and> isclose a3 b3)"

definition eye3 :: matrix where
  "eye3 = Matrix (Vec3 1 0 0) (Vec3 0 1 0) (Vec3 0 0 1)"

definition zeros33 :: matrix where
  "zeros33 = Matrix zeros3 zeros3 zeros3"

fun madd :: "matrix \<Rightarrow> matrix \<Rightarrow> matrix" where
  "madd (Matrix a1 a2 a3) (Matrix b1 b2 b3) = Matrix (vadd a1 b1) (vadd a2 b2) (vadd a3 b3)"

fun transpose3 :: "matrix \<Rightarrow> matrix" where
  "transpose3 (Matrix (Vec3 a11 a12 a13) (Vec3 a21 a22 a23) (Vec3 a31 a32 a33)) =
     Matrix (Vec3 a11 a21 a31) (Vec3 a12 a22 a32) (Vec3 a13 a23 a33)"

fun matvec :: "matrix \<Rightarrow> vec3 \<Rightarrow> vec3" where
  "matvec (Matrix r1 r2 r3) v = Vec3 (dot r1 v) (dot r2 v) (dot r3 v)"

text \<open>
  Modelled from the spec: \<open>vectorsToMatrix\<close>, \<open>matrixMultiplication\<close> and
  \<open>rotateCoords\<close> are imported from \<open>coordination_geometry_utils\<close>, which is not among
  the source files. The spec gives them as the outer product of two points
  (\<open>H = \<Sigma> outer(distorted_i, reference_i)\<close>), the matrix product (\<open>R = V \<cdot> U\<^sup>t\<close>) and
  the rotation of each point by \<open>R\<close>.
\<close>

fun vectorsToMatrix :: "vec3 \<Rightarrow> vec3 \<Rightarrow> matrix" where
  "vectorsToMatrix (Vec3 a1 a2 a3) b = Matrix (vscale a1 b) (vscale a2 b) (vscale a3 b)"

definition matrixMultiplication :: "matrix \<Rightarrow> matrix \<Rightarrow> matrix" where
  "matrixMultiplication A B = (case transpose3 B of Matrix c1 c2 c3 \<Rightarrow>
     transpose3 (Matrix (matvec A c1) (matvec A c2) (matvec A c3)))"

definition rotateCoords :: "vec3 list \<Rightarrow> matrix \<Rightarrow> vec3 list" where
  "rotateCoords coords R = map (matvec R) coords"

section \<open>Alignment: rotation, scale and the continuous symmetry measure\<close>

text \<open>
  \<open>numpy.linalg.svd\<close> is a parameter of the embedding: a function from a matrix to
  the triple \<open>(U, S, Vt)\<close>.
\<close>

type_synonym svd_fun = "matrix \<Rightarrow> matrix \<times> vec3 \<times> matrix"

text \<open>
  The first loop of \<open>find_rotation\<close>: \<open>points_perfect[ip]\<close> raises IndexError when the
  perfect list is shorter, and the loop leaves at the first pair that is not close.
\<close>

fun isexact_loop :: "vec3 list \<Rightarrow> vec3 list \<Rightarrow> error + bool" where
  "isexact_loop [] _ = Inr True"
| "isexact_loop (d # ds) [] = Inl IndexError"
| "isexact_loop (d # ds) (p # ps) = (if \<not> allclose d p then Inr False else isexact_loop ds ps)"

fun H_loop :: "matrix \<Rightarrow> vec3 list \<Rightarrow> vec3 list \<Rightarrow> error + matrix" where
  "H_loop H [] _ = Inr H"
| "H_loop H (d # ds) [] = Inl IndexError"
| "H_loop H (d # ds) (p # ps) = H_loop (madd H (vectorsToMatrix d p)) ds ps"

definition find_rotation :: "svd_fun \<Rightarrow> vec3 list \<Rightarrow> vec3 list \<Rightarrow> error + matrix" where
  "find_rotation svd points_distorted points_perfect =
     (case isexact_loop points_distorted points_perfect of
        Inl e \<Rightarrow> Inl e
      | Inr isexact \<Rightarrow>
          if isexact then Inr eye3
          else (case H_loop zeros33 points_distorted points_perfect of
                  Inl e \<Rightarrow> Inl e
                | Inr H \<Rightarrow> (case svd H of (U, S, Vt) \<Rightarrow>
                    Inr (matrixMultiplication (transpose3 Vt) (transpose3 U)))))"

text \<open>\<open>[np.dot(rc, points_perfect[ii]) for ii, rc in enumerate(rotated_coords)]\<close>\<close>

fun dots_loop :: "vec3 list \<Rightarrow> vec3 list \<Rightarrow> error + real list" where
  "dots_loop [] _ = Inr []"
| "dots_loop (rc # rcs) [] = Inl IndexError"
| "dots_loop (rc # rcs) (p # ps) =
     (case dots_loop rcs ps of Inl e \<Rightarrow> Inl e | Inr xs \<Rightarrow> Inr (dot rc p # xs))"

definition find_scaling_factor ::
  "vec3 list \<Rightarrow> vec3 list \<Rightarrow> matrix \<Rightarrow> error + (npfloat \<times> vec3 list)" where
  "find_scaling_factor points_distorted points_perfect rot =
     (let rotated_coords = rotateCoords points_distorted rot in
      case dots_loop rotated_coords points_perfect of
        Inl e \<Rightarrow> Inl e
      | Inr ds \<Rightarrow>
          (let num = sum_list ds;
               denom = sum_list (map (\<lambda>rc. dot rc rc) rotated_coords)
           in Inr (np_div (Finite num) (Finite denom), rotated_coords)))"

text \<open>
  The loop of \<open>symmetry_measure\<close> over \<open>enumerate(points_perfect)\<close>, with the
  accumulators \<open>num\<close> and \<open>denom\<close>; \<open>rotated_coords[ip]\<close> raises IndexError when the
  rotated list is shorter than the perfect one.
\<close>

fun csm_loop :: "npfloat \<Rightarrow> npfloat \<Rightarrow> real \<Rightarrow> vec3 list \<Rightarrow> vec3 list \<Rightarrow> error + (npfloat \<times> real)" where
  "csm_loop s num denom [] _ = Inr (num, denom)"
| "csm_loop s num denom (pp # pps) [] = Inl IndexError"
| "csm_loop s num denom (pp # pps) (rc # rcs) =
     csm_loop s (np_add num (np_sumsq (np_diff pp (np_scale s rc)))) (denom + dot pp pp) pps rcs"

text \<open>
  When \<open>points_perfect\<close> is empty the loop body never runs, \<open>num\<close> and \<open>denom\<close> are
  still the Python floats \<open>0.0\<close>, and Python's own float division raises
  ZeroDivisionError. After one iteration both are numpy scalars.
\<close>

definition symmetry_measure :: "svd_fun \<Rightarrow> vec3 list \<Rightarrow> vec3 list \<Rightarrow> error + npfloat" where
  "symmetry_measure svd points_distorted points_perfect =
     (if length points_distorted = 1 then Inr (Finite 0)
      else case find_rotation svd points_distorted points_perfect of
        Inl e \<Rightarrow> Inl e
      | Inr rot \<Rightarrow>
         (case find_scaling_factor points_distorted points_perfect rot of
            Inl e \<Rightarrow> Inl e
          | Inr (scaling_factor, rotated_coords) \<Rightarrow>
             (case csm_loop scaling_factor (Finite 0) 0 points_perfect rotated_coords of
                Inl e \<Rightarrow> Inl e
              | Inr (num, denom) \<Rightarrow>
                  if points_perfect = [] then Inl ZeroDivisionError
                  else Inr (np_mul (np_div num (Finite denom)) (Finite 100)))))"

text \<open>
  A stand-in for \<open>numpy.linalg.svd\<close> used where a closed statement needs a concrete
  decomposition. For a diagonal matrix \<open>diag(a, b, c)\<close> it is a singular value
  decomposition: \<open>U = I\<close>, the singular values are the absolute values, and \<open>Vt\<close> is the
  diagonal matrix of the signs.
\<close>

definition sign1 :: "real \<Rightarrow> real" where
  "sign1 x = (if x < 0 then - 1 else 1)"

definition svd_diagonal :: svd_fun where
  "svd_diagonal H =
     (case H of Matrix (Vec3 a _ _) (Vec3 _ b _) (Vec3 _ _ c) \<Rightarrow>
        (eye3, Vec3 (abs a) (abs b) (abs c),
         Matrix (Vec3 (sign1 a) 0 0) (Vec3 0 (sign1 b) 0) (Vec3 0 0 (sign1 c))))"



subsection \<open>The measure as the spec writes it\<close>

text \<open>The sum of the squared norms of a point list; zero exactly for a degenerate list.\<close>

definition sumsq :: "vec3 list \<Rightarrow> real" where
  "sumsq ps = sum_list (map (\<lambda>p. dot p p) ps)"

text \<open>\<open>\<Sigma>|reference_i - c \<cdot> rotated_i|\<^sup>2\<close> for a finite scale \<open>c\<close>.\<close>

definition residual :: "real \<Rightarrow> vec3 list \<Rightarrow> vec3 list \<Rightarrow> real" where
  "residual c rotated reference =
     sum_list (map2 (\<lambda>r x. dot (vsub r (vscale c x)) (vsub r (vscale c x))) reference rotated)"

text \<open>
  \<open>CSM = 100 \<cdot> \<Sigma>|reference_i - s\<cdot>rotated_i|\<^sup>2 / \<Sigma>|reference_i|\<^sup>2\<close>, in numpy's arithmetic:
  the scale \<open>s\<close> is the result of a numpy division and may be \<open>nan\<close>.
\<close>

definition csm_formula :: "npfloat \<Rightarrow> vec3 list \<Rightarrow> vec3 list \<Rightarrow> npfloat" where
  "csm_formula s rotated reference =
     np_mul (Finite 100)
       (np_div (foldl np_add (Finite 0)
                  (map2 (\<lambda>r x. np_sumsq (np_diff r (np_scale s x))) reference rotated))
               (Finite (sumsq reference)))"

section \<open>The point-set geometry\<close>

text \<open>
  Python's \<open>xs[i]\<close> and \<open>[xs[i] for i in idx]\<close> raise IndexError out of range. Indices
  are natural numbers: the catalog's permutations and the index lists the plane
  utilities return are never negative.
\<close>

definition py_index :: "'a list \<Rightarrow> nat \<Rightarrow> error + 'a" where
  "py_index xs i = (if i < length xs then Inr (xs ! i) else Inl IndexError)"

fun py_gather :: "'a list \<Rightarrow> nat list \<Rightarrow> error + 'a list" where
  "py_gather xs [] = Inr []"
| "py_gather xs (i # idx) =
     (case py_index xs i of
        Inl e \<Rightarrow> Inl e
      | Inr x \<Rightarrow> (case py_gather xs idx of Inl e \<Rightarrow> Inl e | Inr ys \<Rightarrow> Inr (x # ys)))"

datatype centering = Standard | Central_site | Centroid | Other_centering

text \<open>
  The attributes of an \<open>AbstractGeometry\<close> that the module reads: the six cached
  views, the centre, the centred neighbours and the centred central site. The
  constructor computes them with numpy, so their components are \<open>npfloat\<close>s; the
  matcher works on a geometry whose coordinates are all finite.
\<close>

record 'v abstract_geometry =
  points_wcs_csc_view :: "'v list"
  points_wocs_csc_view :: "'v list"
  points_wcs_ctwcc_view :: "'v list"
  points_wocs_ctwcc_view :: "'v list"
  points_wcs_ctwocc_view :: "'v list"
  points_wocs_ctwocc_view :: "'v list"
  centre :: "'v"
  coords :: "'v list"
  central_site :: "'v"

fun np_vec :: "vec3 \<Rightarrow> npvec3" where
  "np_vec (Vec3 a1 a2 a3) = NpVec3 (Finite a1) (Finite a2) (Finite a3)"

fun np_vsub :: "npvec3 \<Rightarrow> npvec3 \<Rightarrow> npvec3" where
  "np_vsub (NpVec3 a1 a2 a3) (NpVec3 b1 b2 b3) = NpVec3 (np_sub a1 b1) (np_sub a2 b2) (np_sub a3 b3)"

text \<open>An array divided by a float: \<open>total / np.float(len(bare_coords))\<close>.\<close>

fun np_vdiv :: "vec3 \<Rightarrow> real \<Rightarrow> npvec3" where
  "np_vdiv (Vec3 a1 a2 a3) n =
     NpVec3 (np_div (Finite a1) (Finite n)) (np_div (Finite a2) (Finite n)) (np_div (Finite a3) (Finite n))"

text \<open>\<open>total = np.zeros(3); for pp in bare_coords: total += pp\<close>\<close>

definition vsum :: "vec3 list \<Rightarrow> vec3" where
  "vsum ps = foldl vadd zeros3 ps"

text \<open>
  \<open>np.mean(points, axis=0)\<close>: the sum divided by the number of points; for no point
  numpy warns and returns \<open>nan\<close>.
\<close>

definition np_mean :: "vec3 list \<Rightarrow> npvec3" where
  "np_mean ps = np_vdiv (vsum ps) (real (length ps))"

text \<open>
  The centre chosen by the constructor (lines 84 to 120). With another centering type no
  branch assigns \<open>self.centre\<close>, and reading it afterwards raises AttributeError.
\<close>

definition centroid_centre :: "vec3 \<Rightarrow> vec3 list \<Rightarrow> bool \<Rightarrow> npvec3" where
  "centroid_centre bare_central_site bare_coords include_central_site_in_centroid =
     (if include_central_site_in_centroid
      then np_vdiv (vadd (vsum bare_coords) bare_central_site) (real (length bare_coords) + 1)
      else np_vdiv (vsum bare_coords) (real (length bare_coords)))"

definition choose_centre :: "vec3 \<Rightarrow> vec3 list \<Rightarrow> centering \<Rightarrow> bool \<Rightarrow> error + npvec3" where
  "choose_centre bare_central_site bare_coords centering_type include_central_site_in_centroid =
     (case centering_type of
        Standard \<Rightarrow>
          if length bare_coords < 5
          then (if include_central_site_in_centroid then Inl ValueError
                else Inr (np_vec bare_central_site))
          else Inr (centroid_centre bare_central_site bare_coords include_central_site_in_centroid)
      | Central_site \<Rightarrow>
          if include_central_site_in_centroid then Inl ValueError
          else Inr (np_vec bare_central_site)
      | Centroid \<Rightarrow>
          Inr (centroid_centre bare_central_site bare_coords include_central_site_in_centroid)
      | Other_centering \<Rightarrow> Inl AttributeError)"

text \<open>
  \<open>AbstractGeometry.__init__\<close>. The central site defaults to \<open>None\<close>. Lines 66 to 79
  run before any check: they wrap the central site with \<open>np.array\<close> and subtract it from
  itself (\<open>pp - self.bare_centre\<close> for the first point of \<open>bare_points_with_centre\<close>),
  which for \<open>None\<close> is \<open>None - None\<close> and raises TypeError. The tests
  \<open>central_site is None\<close> of lines 89, 97, 107 and 115 are therefore never reached with
  \<open>None\<close>.
\<close>

definition AbstractGeometry_init ::
  "vec3 option \<Rightarrow> vec3 list \<Rightarrow> centering \<Rightarrow> bool \<Rightarrow> error + npvec3 abstract_geometry" where
  "AbstractGeometry_init bare_central_site bare_coords centering_type include_central_site_in_centroid =
     (case bare_central_site of
        None \<Rightarrow> Inl TypeError
      | Some c \<Rightarrow>
         (let bare_points_without_centre = bare_coords;
              bare_points_with_centre = c # bare_coords;
              centroid_without_centre = np_mean bare_points_without_centre;
              centroid_with_centre = np_mean bare_points_with_centre
          in case choose_centre c bare_coords centering_type include_central_site_in_centroid of
               Inl e \<Rightarrow> Inl e
             | Inr ctr \<Rightarrow>
                 Inr \<lparr> points_wcs_csc_view =
                         map (\<lambda>pp. np_vsub (np_vec pp) (np_vec c)) bare_points_with_centre,
                       points_wocs_csc_view =
                         map (\<lambda>pp. np_vsub (np_vec pp) (np_vec c)) bare_points_without_centre,
                       points_wcs_ctwcc_view =
                         map (\<lambda>pp. np_vsub (np_vec pp) centroid_with_centre) bare_points_with_centre,
                       points_wocs_ctwcc_view =
                         map (\<lambda>pp. np_vsub (np_vec pp) centroid_with_centre) bare_points_without_centre,
                       points_wcs_ctwocc_view =
                         map (\<lambda>pp. np_vsub (np_vec pp) centroid_without_centre) bare_points_with_centre,
                       points_wocs_ctwocc_view =
                         map (\<lambda>pp. np_vsub (np_vec pp) centroid_without_centre) bare_points_without_centre,
                       centre = ctr,
                       coords = map (\<lambda>pp. np_vsub (np_vec pp) ctr) bare_coords,
                       central_site = np_vsub (np_vec c) ctr \<rparr>))"

text \<open>
  The accessors with a permutation: the views without the central site are reordered by
  the permutation, the views with it keep the central site first
  (\<open>perm = [0] + [pp + 1 for pp in permutation]\<close>).
\<close>

definition view_wocs :: "'v list \<Rightarrow> nat list option \<Rightarrow> error + 'v list" where
  "view_wocs points permutation =
     (case permutation of None \<Rightarrow> Inr points | Some perm \<Rightarrow> py_gather points perm)"

definition view_wcs :: "'v list \<Rightarrow> nat list option \<Rightarrow> error + 'v list" where
  "view_wcs points permutation =
     (case permutation of None \<Rightarrow> Inr points
      | Some perm \<Rightarrow> py_gather points (0 # map (\<lambda>pp. pp + 1) perm))"

definition points_wcs_csc :: "'v abstract_geometry \<Rightarrow> nat list option \<Rightarrow> error + 'v list" where
  "points_wcs_csc g permutation = view_wcs (points_wcs_csc_view g) permutation"

definition points_wocs_csc :: "'v abstract_geometry \<Rightarrow> nat list option \<Rightarrow> error + 'v list" where
  "points_wocs_csc g permutation = view_wocs (points_wocs_csc_view g) permutation"

definition points_wcs_ctwcc :: "'v abstract_geometry \<Rightarrow> nat list option \<Rightarrow> error + 'v list" where
  "points_wcs_ctwcc g permutation = view_wcs (points_wcs_ctwcc_view g) permutation"

definition points_wocs_ctwcc :: "'v abstract_geometry \<Rightarrow> nat list option \<Rightarrow> error + 'v list" where
  "points_wocs_ctwcc g permutation = view_wocs (points_wocs_ctwcc_view g) permutation"

definition points_wcs_ctwocc :: "'v abstract_geometry \<Rightarrow> nat list option \<Rightarrow> error + 'v list" where
  "points_wcs_ctwocc g permutation = view_wcs (points_wcs_ctwocc_view g) permutation"

definition points_wocs_ctwocc :: "'v abstract_geometry \<Rightarrow> nat list option \<Rightarrow> error + 'v list" where
  "points_wocs_ctwocc g permutation = view_wocs (points_wocs_ctwocc_view g) permutation"

section \<open>The reference catalog and the external utilities\<close>

text \<open>
  Modelled from the spec: the constants \<open>EXPLICIT_PERMUTATIONS\<close> and \<open>SEPARATION_PLANE\<close>
  are imported from \<open>coordination_geometries\<close>, which is not among the source files. The
  module only compares \<open>algo.algorithm_type\<close> with them; they name the two variants of
  a matching algorithm that the spec lists.
\<close>

definition EXPLICIT_PERMUTATIONS :: string where
  "EXPLICIT_PERMUTATIONS = ''EXPLICIT_PERMUTATIONS''"

definition SEPARATION_PLANE :: string where
  "SEPARATION_PLANE = ''SEPARATION_PLANE''"

text \<open>
  An algorithm descriptor of a reference polyhedron, with the attributes the module
  reads from it: \<open>algo_str\<close> is \<open>str(algo)\<close>, and \<open>safe_separation_permutations\<close> is the
  result of the method of that name called with the descriptor's own \<open>ordered_plane\<close>
  and \<open>ordered_point_groups\<close>.
\<close>

record algorithm =
  algorithm_type :: string
  algo_str :: string
  permutations :: "nat list list"
  minimum_number_of_points :: int
  maximum_number_of_points :: int
  plane_points :: "nat list"
  point_groups :: "nat list list"
  ordered_plane :: bool
  ordered_point_groups :: "bool list"
  safe_separation_permutations :: "nat list list"
  argsorted_ref_separation_perm :: "nat list"

text \<open>
  A reference polyhedron: \<open>has_equivalent_indices\<close> is \<open>equivalent_indices is not None\<close>,
  \<open>cg_points\<close> is \<open>points\<close> and \<open>cg_central_site\<close> is \<open>get_central_site()\<close>.
\<close>

record coordination_geometry =
  mp_symbol :: string
  algorithms :: "algorithm list option"
  coordination_number :: nat
  has_equivalent_indices :: bool
  ref_permutation :: "nat list \<Rightarrow> nat list"
  cg_points :: "vec3 list"
  cg_central_site :: "vec3 option"

text \<open>A separation: the indices on one side of a plane, on the plane, on the other side.\<close>

type_synonym separation = "nat list \<times> nat list \<times> nat list"

text \<open>
  The functions the module imports and that are not among the source files are
  parameters: numpy's decomposition and random permutation (with the generator's state
  \<open>'r\<close> passed explicitly), and the plane utilities of \<open>coordination_geometry_utils\<close> on
  planes of type \<open>'p\<close>.
\<close>

record ('p, 'r) externals =
  linalg_svd :: svd_fun
  random_permutation :: "nat \<Rightarrow> 'r \<Rightarrow> nat list \<times> 'r"
  collinear :: "vec3 \<Rightarrow> vec3 \<Rightarrow> vec3 \<Rightarrow> real \<Rightarrow> bool"
  from_3points :: "vec3 \<Rightarrow> vec3 \<Rightarrow> vec3 \<Rightarrow> 'p"
  from_npoints :: "vec3 list \<Rightarrow> 'p"
  indices_separate :: "'p \<Rightarrow> vec3 list \<Rightarrow> real \<Rightarrow> separation"
  project_and_to2dim_ordered_indices :: "'p \<Rightarrow> vec3 list \<Rightarrow> nat list"
  sort_separation :: "separation \<Rightarrow> separation"
  separation_in_list :: "separation \<Rightarrow> separation list \<Rightarrow> bool"

text \<open>The attributes of the \<open>LocalGeometryFinder\<close> that the matching reads.\<close>

record finder =
  permutations_safe_override :: bool
  plane_safe_permutations :: bool
  centering_type :: centering
  include_central_site_in_centroid :: bool
  local_geometry :: "vec3 abstract_geometry"

definition DIST_TOLERANCES :: "real list" where
  "DIST_TOLERANCES = [2 / 100, 5 / 100, 1 / 10, 2 / 10, 3 / 10]"

section \<open>Results and index maps\<close>

type_synonym index_map = "nat \<rightharpoonup> nat"

text \<open>
  What every strategy returns: the measures, the permutations, the algorithm labels, the
  local-to-perfect maps and the perfect-to-local maps, index by index.
\<close>

type_synonym cgsm = "npfloat list \<times> nat list list \<times> string list \<times> index_map list \<times> index_map list"

text \<open>
  \<open>for i_p, pp in enumerate(perm): p2l[i_p] = pp; l2p[pp] = i_p\<close>, starting from two
  empty dictionaries; the result is the pair \<open>(l2p, p2l)\<close>.
\<close>

fun maps_loop :: "nat \<Rightarrow> nat list \<Rightarrow> index_map \<Rightarrow> index_map \<Rightarrow> index_map \<times> index_map" where
  "maps_loop i_p [] l2p p2l = (l2p, p2l)"
| "maps_loop i_p (pp # perm) l2p p2l = maps_loop (Suc i_p) perm (l2p(pp \<mapsto> i_p)) (p2l(i_p \<mapsto> pp))"

definition local2perfect_map :: "nat list \<Rightarrow> index_map" where
  "local2perfect_map perm = fst (maps_loop 0 perm Map.empty Map.empty)"

definition perfect2local_map :: "nat list \<Rightarrow> index_map" where
  "perfect2local_map perm = snd (maps_loop 0 perm Map.empty Map.empty)"

section \<open>Explicit permutations\<close>

text \<open>
  \<open>coordination_geometry_symmetry_measures_standard\<close>: one measure per listed
  permutation, each labelled \<open>str(algo)\<close>. An exception in one iteration ends the call.
\<close>

fun standard_loop ::
  "svd_fun \<Rightarrow> vec3 abstract_geometry \<Rightarrow> string \<Rightarrow> vec3 list \<Rightarrow> nat list list \<Rightarrow> error + cgsm" where
  "standard_loop sv lg label points_perfect [] = Inr ([], [], [], [], [])"
| "standard_loop sv lg label points_perfect (perm # perms) =
     (case points_wocs_ctwocc lg (Some perm) of
        Inl e \<Rightarrow> Inl e
      | Inr points_distorted \<Rightarrow>
         (case symmetry_measure sv points_distorted points_perfect of
            Inl e \<Rightarrow> Inl e
          | Inr csm \<Rightarrow>
             (case standard_loop sv lg label points_perfect perms of
                Inl e \<Rightarrow> Inl e
              | Inr (csms, ps, algos, l2ps, p2ls) \<Rightarrow>
                  Inr (csm # csms, perm # ps, label # algos,
                       local2perfect_map perm # l2ps, perfect2local_map perm # p2ls))))"

definition coordination_geometry_symmetry_measures_standard ::
  "('p, 'r) externals \<Rightarrow> finder \<Rightarrow> algorithm \<Rightarrow> vec3 list \<Rightarrow> error + cgsm" where
  "coordination_geometry_symmetry_measures_standard ext self algo points_perfect =
     standard_loop (linalg_svd ext) (local_geometry self) (algo_str algo) points_perfect
       (permutations algo)"

section \<open>The random fallback\<close>

text \<open>
  \<open>coordination_geometry_symmetry_measures_fallback_random\<close>: \<open>NRANDOM\<close> iterations, each
  drawing \<open>np.random.permutation(coordination_number)\<close>.
\<close>

fun fallback_loop ::
  "('p, 'r) externals \<Rightarrow> vec3 abstract_geometry \<Rightarrow> nat \<Rightarrow> vec3 list \<Rightarrow> nat \<Rightarrow> 'r \<Rightarrow>
   error + (cgsm \<times> 'r)" where
  "fallback_loop ext lg cn points_perfect 0 rng = Inr (([], [], [], [], []), rng)"
| "fallback_loop ext lg cn points_perfect (Suc n) rng =
     (case random_permutation ext cn rng of (perm, rng') \<Rightarrow>
        (case points_wocs_ctwocc lg (Some perm) of
           Inl e \<Rightarrow> Inl e
         | Inr points_distorted \<Rightarrow>
            (case symmetry_measure (linalg_svd ext) points_distorted points_perfect of
               Inl e \<Rightarrow> Inl e
             | Inr csm \<Rightarrow>
                (case fallback_loop ext lg cn points_perfect n rng' of
                   Inl e \<Rightarrow> Inl e
                 | Inr ((csms, ps, algos, l2ps, p2ls), rng'') \<Rightarrow>
                     Inr ((csm # csms, perm # ps, ''APPROXIMATE_FALLBACK'' # algos,
                           local2perfect_map perm # l2ps, perfect2local_map perm # p2ls),
                          rng'')))))"

definition NRANDOM :: nat where
  "NRANDOM = 200"

definition coordination_geometry_symmetry_measures_fallback_random ::
  "('p, 'r) externals \<Rightarrow> finder \<Rightarrow> coordination_geometry \<Rightarrow> vec3 list \<Rightarrow> 'r \<Rightarrow>
   error + (cgsm \<times> 'r)" where
  "coordination_geometry_symmetry_measures_fallback_random ext self cg points_perfect rng =
     fallback_loop ext (local_geometry self) (coordination_number cg) points_perfect NRANDOM rng"

section \<open>The separation-plane search\<close>

text \<open>
  The set \<open>tested_permutations\<close> is \<open>False\<close> (here \<open>None\<close>) when the deduplication is off,
  and otherwise the set of reference permutations tested so far.
\<close>

type_synonym tested = "nat list list option"

text \<open>\<open>[pp for ip, pp in enumerate(coords) if ip in members]\<close>\<close>

definition select_points :: "vec3 list \<Rightarrow> nat list \<Rightarrow> vec3 list" where
  "select_points cs members = map snd (filter (\<lambda>(ip, pp). ip \<in> set members) (enumerate 0 cs))"

text \<open>A members reordered by the two-dimensional order of its projected points.\<close>

definition ordered_group ::
  "('p, 'r) externals \<Rightarrow> 'p \<Rightarrow> vec3 list \<Rightarrow> nat list \<Rightarrow> error + nat list" where
  "ordered_group ext local_plane cs members =
     py_gather members (project_and_to2dim_ordered_indices ext local_plane (select_points cs members))"

text \<open>Lines 941 to 965: the permutation read off an accepted separation.\<close>

definition separation_permutation ::
  "('p, 'r) externals \<Rightarrow> algorithm \<Rightarrow> 'p \<Rightarrow> vec3 list \<Rightarrow> separation \<Rightarrow> error + nat list" where
  "separation_permutation ext sepplane local_plane cs this_separation =
     (case this_separation of (s0, s1, s2) \<Rightarrow>
        if ordered_plane sepplane then
          (case py_index (ordered_point_groups sepplane) 0 of
             Inl e \<Rightarrow> Inl e
           | Inr o0 \<Rightarrow>
              (case (if o0 then ordered_group ext local_plane cs s0 else Inr s0) of
                 Inl e \<Rightarrow> Inl e
               | Inr sep0 \<Rightarrow>
                  (case py_index (ordered_point_groups sepplane) 1 of
                     Inl e \<Rightarrow> Inl e
                   | Inr o1 \<Rightarrow>
                      (case (if o1 then ordered_group ext local_plane cs s2 else Inr s2) of
                         Inl e \<Rightarrow> Inl e
                       | Inr sep2 \<Rightarrow>
                          (case ordered_group ext local_plane cs s1 of
                             Inl e \<Rightarrow> Inl e
                           | Inr mid \<Rightarrow> Inr (sep0 @ mid @ sep2))))))
        else Inr (s0 @ s1 @ s2))"

text \<open>
  Lines 974 to 992: one trial permutation per entry of the permutation table, skipping
  the ones whose reference permutation is already in \<open>tested_permutations\<close>.
\<close>

fun sep_perms_loop ::
  "svd_fun \<Rightarrow> vec3 abstract_geometry \<Rightarrow> coordination_geometry \<Rightarrow> nat list \<Rightarrow> nat list \<Rightarrow>
   vec3 list \<Rightarrow> tested \<Rightarrow> nat list list \<Rightarrow> error + (npfloat list \<times> nat list list \<times> tested)" where
  "sep_perms_loop sv lg cg separation_perm argref_separation points_perfect tp [] =
     Inr ([], [], tp)"
| "sep_perms_loop sv lg cg separation_perm argref_separation points_perfect tp (sep_perm # rest) =
     (case py_gather separation_perm sep_perm of
        Inl e \<Rightarrow> Inl e
      | Inr perm1 \<Rightarrow>
         (case py_gather perm1 argref_separation of
            Inl e \<Rightarrow> Inl e
          | Inr pp \<Rightarrow>
             (let dedup = (tp \<noteq> None \<and> has_equivalent_indices cg);
                  seen = (case tp of None \<Rightarrow> [] | Some s \<Rightarrow> s)
              in if dedup \<and> ref_permutation cg pp \<in> set seen
                 then sep_perms_loop sv lg cg separation_perm argref_separation points_perfect tp rest
                 else
                   (case points_wocs_ctwocc lg (Some pp) of
                      Inl e \<Rightarrow> Inl e
                    | Inr points_distorted \<Rightarrow>
                       (case symmetry_measure sv points_distorted points_perfect of
                          Inl e \<Rightarrow> Inl e
                        | Inr csm \<Rightarrow>
                           (case sep_perms_loop sv lg cg separation_perm argref_separation
                                   points_perfect
                                   (if dedup then Some (ref_permutation cg pp # seen) else tp) rest of
                              Inl e \<Rightarrow> Inl e
                            | Inr (csms, perms, tp') \<Rightarrow> Inr (csm # csms, pp # perms, tp')))))))"

text \<open>
  What \<open>_cg_csm_separation_plane\<close> returns: \<open>None\<close> for \<open>(None, None, None)\<close>, and
  otherwise the measures, the permutations and the labels; together with the updated
  \<open>plane_separations\<close> and \<open>tested_permutations\<close>, which the source mutates in place.
\<close>

type_synonym plane_result =
  "(npfloat list \<times> nat list list \<times> string list) option \<times> separation list \<times> tested"

text \<open>Lines 941 to 1002, for a separation that has just been accepted.\<close>

definition accepted_plane ::
  "('p, 'r) externals \<Rightarrow> finder \<Rightarrow> coordination_geometry \<Rightarrow> algorithm \<Rightarrow> 'p \<Rightarrow> vec3 list \<Rightarrow>
   separation list \<Rightarrow> tested \<Rightarrow> separation \<Rightarrow> error + plane_result" where
  "accepted_plane ext self cg sepplane local_plane points_perfect seps tp this_separation =
     (case separation_permutation ext sepplane local_plane (coords (local_geometry self))
             this_separation of
        Inl e \<Rightarrow> Inl e
      | Inr separation_perm \<Rightarrow>
         (let sep_perms = (if plane_safe_permutations self
                           then safe_separation_permutations sepplane
                           else permutations sepplane)
          in case sep_perms_loop (linalg_svd ext) (local_geometry self) cg separation_perm
                    (argsorted_ref_separation_perm sepplane) points_perfect tp sep_perms of
               Inl e \<Rightarrow> Inl e
             | Inr (csms, perms, tp') \<Rightarrow>
                 if length csms > 0
                 then Inr (Some (csms, perms, replicate (length perms) (algorithm_type sepplane)),
                           seps, tp')
                 else Inr (Some (csms, perms, []), seps, tp')))"

text \<open>
  Lines 922 to 939, for one distance tolerance: \<open>None\<close> when the separation is rejected
  (\<open>continue\<close>), and otherwise \<open>this_separation\<close>, the separation oriented as the
  reference has it.
\<close>

definition judge_separation ::
  "('p, 'r) externals \<Rightarrow> algorithm \<Rightarrow> 'p \<Rightarrow> vec3 list \<Rightarrow> separation list \<Rightarrow> real \<Rightarrow>
   error + separation option" where
  "judge_separation ext sepplane local_plane cs seps dist_tolerance =
     (let separation = sort_separation ext (indices_separate ext local_plane cs dist_tolerance)
      in if separation_in_list ext separation seps then Inr None
         else if length (fst (snd separation)) \<noteq> length (plane_points sepplane) then Inr None
         else (case py_index (point_groups sepplane) 0 of
            Inl e \<Rightarrow> Inl e
          | Inr group0 \<Rightarrow>
             if length (fst separation) = length group0 then Inr (Some separation)
             else (case py_index (point_groups sepplane) 1 of
                Inl e \<Rightarrow> Inl e
              | Inr group1 \<Rightarrow>
                 if length (fst separation) = length group1
                 then Inr (Some (snd (snd separation), fst (snd separation), fst separation))
                 else Inr None)))"

text \<open>
  The loop of \<open>_cg_csm_separation_plane\<close> over the distance tolerances: a tolerance
  whose separation is rejected is skipped; the first accepted separation is appended to
  \<open>plane_separations\<close>, sets \<open>plane_found\<close> and ends the loop.
\<close>

fun cg_csm_loop ::
  "('p, 'r) externals \<Rightarrow> finder \<Rightarrow> coordination_geometry \<Rightarrow> algorithm \<Rightarrow> 'p \<Rightarrow> vec3 list \<Rightarrow>
   separation list \<Rightarrow> tested \<Rightarrow> real list \<Rightarrow> error + plane_result" where
  "cg_csm_loop ext self cg sepplane local_plane points_perfect seps tp [] = Inr (None, seps, tp)"
| "cg_csm_loop ext self cg sepplane local_plane points_perfect seps tp (dist_tolerance # rest) =
     (case judge_separation ext sepplane local_plane (coords (local_geometry self)) seps
             dist_tolerance of
        Inl e \<Rightarrow> Inl e
      | Inr None \<Rightarrow> cg_csm_loop ext self cg sepplane local_plane points_perfect seps tp rest
      | Inr (Some this_separation) \<Rightarrow>
          accepted_plane ext self cg sepplane local_plane points_perfect
            (seps @ [this_separation]) tp this_separation)"

definition cg_csm_separation_plane ::
  "('p, 'r) externals \<Rightarrow> finder \<Rightarrow> coordination_geometry \<Rightarrow> algorithm \<Rightarrow> 'p \<Rightarrow>
   separation list \<Rightarrow> real list \<Rightarrow> tested \<Rightarrow> vec3 list \<Rightarrow> error + plane_result" where
  "cg_csm_separation_plane ext self cg sepplane local_plane seps dist_tolerances tp points_perfect =
     cg_csm_loop ext self cg sepplane local_plane points_perfect seps tp dist_tolerances"

text \<open>\<open>itertools.combinations\<close>: the sub-lists of a given size, in lexicographic order of
  positions; a negative size raises ValueError.\<close>

fun combinations :: "'a list \<Rightarrow> nat \<Rightarrow> 'a list list" where
  "combinations xs 0 = [[]]"
| "combinations [] (Suc r) = []"
| "combinations (x # xs) (Suc r) = map (\<lambda>c. x # c) (combinations xs r) @ combinations xs (Suc r)"

definition itertools_combinations :: "'a list \<Rightarrow> int \<Rightarrow> error + 'a list list" where
  "itertools_combinations xs r = (if r < 0 then Inl ValueError else Inr (combinations xs (nat r)))"

text \<open>
  Lines 863 to 876: the trial plane of a combination, \<open>None\<close> when the combination is
  skipped as collinear, ValueError for fewer than two points.
\<close>

definition trial_plane ::
  "('p, 'r) externals \<Rightarrow> vec3 abstract_geometry \<Rightarrow> int \<Rightarrow> vec3 list \<Rightarrow> error + 'p option" where
  "trial_plane ext lg npoints points_combination =
     (if npoints = 2 then
        (case points_combination of
           c0 # c1 # _ \<Rightarrow>
             if collinear ext c0 c1 (central_site lg) (25 / 100) then Inr None
             else Inr (Some (from_3points ext c0 c1 (central_site lg)))
         | _ \<Rightarrow> Inl IndexError)
      else if npoints = 3 then
        (case points_combination of
           c0 # c1 # c2 # _ \<Rightarrow>
             if collinear ext c0 c1 c2 (25 / 100) then Inr None
             else Inr (Some (from_3points ext c0 c1 c2))
         | _ \<Rightarrow> Inl IndexError)
      else if npoints > 3 then Inr (Some (from_npoints ext points_combination))
      else Inl ValueError)"

text \<open>The local variables of the search, and the two sets it threads through.\<close>

record search_state =
  permutations_symmetry_measures :: "npfloat list"
  found_permutations :: "nat list list"
  found_algos :: "string list"
  local2perfect_maps :: "index_map list"
  perfect2local_maps :: "index_map list"
  nplanes :: nat
  plane_separations :: "separation list"
  tested_permutations :: tested

definition initial_search_state :: "tested \<Rightarrow> search_state" where
  "initial_search_state tp =
     \<lparr> permutations_symmetry_measures = [], found_permutations = [], found_algos = [],
       local2perfect_maps = [], perfect2local_maps = [], nplanes = 0,
       plane_separations = [], tested_permutations = tp \<rparr>"

text \<open>Lines 885 to 901: what the search does with the result for one plane.\<close>

definition record_plane :: "search_state \<Rightarrow> plane_result \<Rightarrow> search_state" where
  "record_plane st res =
     (case res of
        (None, seps, tp) \<Rightarrow> st\<lparr> plane_separations := seps, tested_permutations := tp \<rparr>
      | (Some (csm, perm, algo), seps, tp) \<Rightarrow>
          st\<lparr> permutations_symmetry_measures := permutations_symmetry_measures st @ csm,
              found_permutations := found_permutations st @ perm,
              found_algos := found_algos st @ algo,
              local2perfect_maps := local2perfect_maps st @ map local2perfect_map perm,
              perfect2local_maps := perfect2local_maps st @ map perfect2local_map perm,
              nplanes := nplanes st + 1,
              plane_separations := seps, tested_permutations := tp \<rparr>)"

text \<open>The inner loop, over the combinations of one size.\<close>

fun combinations_loop ::
  "('p, 'r) externals \<Rightarrow> finder \<Rightarrow> coordination_geometry \<Rightarrow> algorithm \<Rightarrow> vec3 list \<Rightarrow> int \<Rightarrow>
   vec3 list list \<Rightarrow> search_state \<Rightarrow> error + search_state" where
  "combinations_loop ext self cg sepplane points_perfect npoints [] st = Inr st"
| "combinations_loop ext self cg sepplane points_perfect npoints (points_combination # rest) st =
     (case trial_plane ext (local_geometry self) npoints points_combination of
        Inl e \<Rightarrow> Inl e
      | Inr None \<Rightarrow> combinations_loop ext self cg sepplane points_perfect npoints rest st
      | Inr (Some plane) \<Rightarrow>
         (case cg_csm_separation_plane ext self cg sepplane plane (plane_separations st)
                 DIST_TOLERANCES (tested_permutations st) points_perfect of
            Inl e \<Rightarrow> Inl e
          | Inr res \<Rightarrow>
              combinations_loop ext self cg sepplane points_perfect npoints rest
                (record_plane st res)))"

text \<open>
  The outer loop, over the sizes: it leaves as soon as a size has given a plane
  (\<open>if nplanes > 0: break\<close>).
\<close>

fun npoints_loop ::
  "('p, 'r) externals \<Rightarrow> finder \<Rightarrow> coordination_geometry \<Rightarrow> algorithm \<Rightarrow> vec3 list \<Rightarrow>
   int list \<Rightarrow> search_state \<Rightarrow> error + search_state" where
  "npoints_loop ext self cg sepplane points_perfect [] st = Inr st"
| "npoints_loop ext self cg sepplane points_perfect (npoints # rest) st =
     (case itertools_combinations (coords (local_geometry self)) npoints of
        Inl e \<Rightarrow> Inl e
      | Inr cs \<Rightarrow>
         (case combinations_loop ext self cg sepplane points_perfect npoints cs st of
            Inl e \<Rightarrow> Inl e
          | Inr st' \<Rightarrow>
              if nplanes st' > 0 then Inr st'
              else npoints_loop ext self cg sepplane points_perfect rest st'))"

text \<open>
  \<open>range(minimum_number_of_points, min(maximum_number_of_points, 4) + 1)\<close>: the integers
  from the first bound up to and including \<open>min(maximum_number_of_points, 4)\<close>.
\<close>

definition npoints_range :: "algorithm \<Rightarrow> int list" where
  "npoints_range sepplane =
     [minimum_number_of_points sepplane .. min (maximum_number_of_points sepplane) 4]"

text \<open>
  \<open>coordination_geometry_symmetry_measures_separation_plane\<close> (with \<open>testing=False\<close>, as
  every caller in the module has it): the search, and the random fallback when no plane
  was found. The result comes with the updated \<open>tested_permutations\<close> and the state of
  the random generator.
\<close>

definition coordination_geometry_symmetry_measures_separation_plane ::
  "('p, 'r) externals \<Rightarrow> finder \<Rightarrow> coordination_geometry \<Rightarrow> algorithm \<Rightarrow> tested \<Rightarrow> vec3 list \<Rightarrow>
   'r \<Rightarrow> error + (cgsm \<times> tested \<times> 'r)" where
  "coordination_geometry_symmetry_measures_separation_plane ext self cg separation_plane_algo
       tp points_perfect rng =
     (case npoints_loop ext self cg separation_plane_algo points_perfect
             (npoints_range separation_plane_algo) (initial_search_state tp) of
        Inl e \<Rightarrow> Inl e
      | Inr st \<Rightarrow>
          if nplanes st = 0
          then (case coordination_geometry_symmetry_measures_fallback_random ext self cg
                       points_perfect rng of
                  Inl e \<Rightarrow> Inl e
                | Inr (res, rng') \<Rightarrow> Inr (res, tested_permutations st, rng'))
          else Inr ((permutations_symmetry_measures st, found_permutations st, found_algos st,
                     local2perfect_maps st, perfect2local_maps st),
                    tested_permutations st, rng))"

section \<open>The choice of the strategy\<close>

text \<open>
  \<open>coordination_geometry_symmetry_measures_safe_override\<close>. \<open>itertools.permutations\<close>
  yields at least one permutation, the identity first. In the first iteration the
  method gathers the points of the polyhedron, constructs an \<open>AbstractGeometry\<close> and
  calls \<open>self.symmetry_measure_newpmg\<close>, which \<open>LocalGeometryFinder\<close> (a direct subclass
  of \<open>object\<close>) does not define: the attribute lookup raises AttributeError.
\<close>

definition coordination_geometry_symmetry_measures_safe_override ::
  "finder \<Rightarrow> coordination_geometry \<Rightarrow> error + cgsm" where
  "coordination_geometry_symmetry_measures_safe_override self cg =
     (case py_gather (cg_points cg) [0 ..< coordination_number cg] of
        Inl e \<Rightarrow> Inl e
      | Inr bare_coords \<Rightarrow>
         (case AbstractGeometry_init (cg_central_site cg) bare_coords (centering_type self)
                 (include_central_site_in_centroid self) of
            Inl e \<Rightarrow> Inl e
          | Inr perfect_geometry \<Rightarrow> Inl AttributeError))"

text \<open>
  The loop of \<open>coordination_geometry_symmetry_measures\<close> over the declared algorithms:
  an explicit-permutations algorithm returns at once, a separation-plane algorithm
  extends the lists, and an algorithm of any other type is passed over.
\<close>

fun algorithms_loop ::
  "('p, 'r) externals \<Rightarrow> finder \<Rightarrow> coordination_geometry \<Rightarrow> vec3 list \<Rightarrow> algorithm list \<Rightarrow>
   cgsm \<Rightarrow> tested \<Rightarrow> 'r \<Rightarrow> error + (cgsm \<times> 'r)" where
  "algorithms_loop ext self cg points_perfect [] acc tp rng = Inr (acc, rng)"
| "algorithms_loop ext self cg points_perfect (algo # rest) acc tp rng =
     (if algorithm_type algo = EXPLICIT_PERMUTATIONS
      then (case coordination_geometry_symmetry_measures_standard ext self algo points_perfect of
              Inl e \<Rightarrow> Inl e
            | Inr res \<Rightarrow> Inr (res, rng))
      else if algorithm_type algo = SEPARATION_PLANE
      then (case coordination_geometry_symmetry_measures_separation_plane ext self cg algo tp
                   points_perfect rng of
              Inl e \<Rightarrow> Inl e
            | Inr ((csm, perm, algos, l2p, p2l), tp', rng') \<Rightarrow>
               (case acc of (csms, perms, algos_acc, l2ps, p2ls) \<Rightarrow>
                  algorithms_loop ext self cg points_perfect rest
                    (csms @ csm, perms @ perm, algos_acc @ algos, l2ps @ l2p, p2ls @ p2l)
                    tp' rng'))
      else algorithms_loop ext self cg points_perfect rest acc tp rng)"

text \<open>
  \<open>coordination_geometry_symmetry_measures\<close>. The parameter \<open>tested_permutations\<close> is
  \<open>False\<close> by default; a true value is replaced by a fresh empty set. A polyhedron whose
  \<open>algorithms\<close> is \<open>None\<close> cannot be iterated over (TypeError).
\<close>

definition coordination_geometry_symmetry_measures ::
  "('p, 'r) externals \<Rightarrow> finder \<Rightarrow> coordination_geometry \<Rightarrow> bool \<Rightarrow> vec3 list \<Rightarrow> 'r \<Rightarrow>
   error + (cgsm \<times> 'r)" where
  "coordination_geometry_symmetry_measures ext self cg tested_permutations_given points_perfect rng =
     (let tp = (if tested_permutations_given then Some [] else None)
      in if permutations_safe_override self
         then (case coordination_geometry_symmetry_measures_safe_override self cg of
                 Inl e \<Rightarrow> Inl e
               | Inr res \<Rightarrow> Inr (res, rng))
         else (case algorithms cg of
                 None \<Rightarrow> Inl TypeError
               | Some algos \<Rightarrow>
                   algorithms_loop ext self cg points_perfect algos ([], [], [], [], []) tp rng))"

section \<open>The measures of a site\<close>

text \<open>
  \<open>np.argmin\<close>: the index of the first minimum; a \<open>nan\<close> counts as the minimum, so the
  index of the first \<open>nan\<close> is returned when there is one. An empty sequence raises
  ValueError.
\<close>

fun np_less :: "npfloat \<Rightarrow> npfloat \<Rightarrow> bool" where
  "np_less (Finite a) (Finite b) = (a < b)"
| "np_less NegInf (Finite b) = True"
| "np_less NegInf PosInf = True"
| "np_less (Finite a) PosInf = True"
| "np_less _ _ = False"

fun argmin_loop :: "nat \<Rightarrow> npfloat \<Rightarrow> nat \<Rightarrow> npfloat list \<Rightarrow> nat" where
  "argmin_loop imin best i [] = imin"
| "argmin_loop imin best i (x # xs) =
     (if best \<noteq> NaN \<and> (x = NaN \<or> np_less x best)
      then argmin_loop i x (Suc i) xs
      else argmin_loop imin best (Suc i) xs)"

definition np_argmin :: "npfloat list \<Rightarrow> error + nat" where
  "np_argmin xs = (case xs of [] \<Rightarrow> Inl ValueError | x # rest \<Rightarrow> Inr (argmin_loop 0 x 1 rest))"

text \<open>The entry of one polyhedron in the dictionary of a site.\<close>

record match_result =
  res_csm :: npfloat
  res_indices :: "nat list"
  res_algo :: string
  res_local2perfect_map :: index_map
  res_perfect2local_map :: index_map
  res_csm_wocs_ctwocc :: npfloat
  res_csm_wocs_ctwcc :: npfloat
  res_csm_wocs_csc :: npfloat
  res_csm_wcs_ctwocc :: npfloat
  res_csm_wcs_ctwcc :: npfloat
  res_csm_wcs_csc :: npfloat

fun finite_vec :: "npvec3 \<Rightarrow> vec3 option" where
  "finite_vec (NpVec3 (Finite a) (Finite b) (Finite c)) = Some (Vec3 a b c)"
| "finite_vec _ = None"

definition finite_points :: "npvec3 list \<Rightarrow> vec3 list option" where
  "finite_points ps = those (map finite_vec ps)"

text \<open>A geometry as the constructor returns it, read as a geometry of finite points.\<close>

definition finite_geometry :: "npvec3 abstract_geometry \<Rightarrow> vec3 abstract_geometry option" where
  "finite_geometry g =
     Option.bind (finite_points (points_wcs_csc_view g)) (\<lambda>v1.
     Option.bind (finite_points (points_wocs_csc_view g)) (\<lambda>v2.
     Option.bind (finite_points (points_wcs_ctwcc_view g)) (\<lambda>v3.
     Option.bind (finite_points (points_wocs_ctwcc_view g)) (\<lambda>v4.
     Option.bind (finite_points (points_wcs_ctwocc_view g)) (\<lambda>v5.
     Option.bind (finite_points (points_wocs_ctwocc_view g)) (\<lambda>v6.
     Option.bind (finite_vec (centre g)) (\<lambda>c.
     Option.bind (finite_points (coords g)) (\<lambda>cs.
     Option.bind (finite_vec (central_site g)) (\<lambda>s.
       Some \<lparr> points_wcs_csc_view = v1, points_wocs_csc_view = v2,
              points_wcs_ctwcc_view = v3, points_wocs_ctwcc_view = v4,
              points_wcs_ctwocc_view = v5, points_wocs_ctwocc_view = v6,
              centre = c, coords = cs, central_site = s \<rparr>)))))))))"

text \<open>\<open>AbstractGeometry.from_cg\<close>\<close>

definition from_cg ::
  "coordination_geometry \<Rightarrow> centering \<Rightarrow> bool \<Rightarrow> error + npvec3 abstract_geometry" where
  "from_cg cg ct incl = AbstractGeometry_init (cg_central_site cg) (cg_points cg) ct incl"

text \<open>An exception ends the computation: the next step runs on a returned value only.\<close>

definition bind_err :: "error + 'a \<Rightarrow> ('a \<Rightarrow> error + 'b) \<Rightarrow> error + 'b" where
  "bind_err m f = (case m of Inl e \<Rightarrow> Inl e | Inr x \<Rightarrow> f x)"

text \<open>One of the five further measures of lines 708 to 733.\<close>

definition view_measure ::
  "svd_fun \<Rightarrow> error + vec3 list \<Rightarrow> error + vec3 list \<Rightarrow> error + npfloat" where
  "view_measure sv pdist pperf =
     (case pdist of
        Inl e \<Rightarrow> Inl e
      | Inr points_distorted \<Rightarrow>
         (case pperf of
            Inl e \<Rightarrow> Inl e
          | Inr points_perfect \<Rightarrow> symmetry_measure sv points_distorted points_perfect))"

text \<open>
  Lines 693 to 733 (\<open>only_minimum\<close> and \<open>all_csms\<close> are true by default): the entry for the
  minimum of a non-empty result.
\<close>

definition minimum_entry ::
  "svd_fun \<Rightarrow> vec3 abstract_geometry \<Rightarrow> vec3 abstract_geometry \<Rightarrow> cgsm \<Rightarrow> error + match_result" where
  "minimum_entry sv lg perfect_geometry cgsm =
     (case cgsm of (result, perms, algos, l2ps, p2ls) \<Rightarrow>
      bind_err (np_argmin result) (\<lambda>imin.
      bind_err (py_index algos imin) (\<lambda>algo.
      bind_err (py_index result imin) (\<lambda>csm.
      bind_err (py_index perms imin) (\<lambda>permutation.
      bind_err (py_index l2ps imin) (\<lambda>l2p.
      bind_err (py_index p2ls imin) (\<lambda>p2l.
      bind_err (view_measure sv (points_wocs_ctwcc lg (Some permutation))
                  (points_wocs_ctwcc perfect_geometry None)) (\<lambda>c1.
      bind_err (view_measure sv (points_wocs_csc lg (Some permutation))
                  (points_wocs_csc perfect_geometry None)) (\<lambda>c2.
      bind_err (view_measure sv (points_wcs_ctwocc lg (Some permutation))
                  (points_wcs_ctwocc perfect_geometry None)) (\<lambda>c3.
      bind_err (view_measure sv (points_wcs_ctwcc lg (Some permutation))
                  (points_wcs_ctwcc perfect_geometry None)) (\<lambda>c4.
      bind_err (view_measure sv (points_wcs_csc lg (Some permutation))
                  (points_wcs_csc perfect_geometry None)) (\<lambda>c5.
        Inr \<lparr> res_csm = csm, res_indices = permutation, res_algo = algo,
              res_local2perfect_map = l2p, res_perfect2local_map = p2l,
              res_csm_wocs_ctwocc = csm, res_csm_wocs_ctwcc = c1, res_csm_wocs_csc = c2,
              res_csm_wcs_ctwocc = c3, res_csm_wcs_ctwcc = c4,
              res_csm_wcs_csc = c5 \<rparr>))))))))))))"

text \<open>
  The loop of \<open>get_coordination_symmetry_measures\<close> over the polyhedra to test: a
  polyhedron with an empty result gets no entry in \<open>result_dict\<close>, and the loop goes on.
  The list of polyhedra (\<open>self.cg.get_implemented_geometries\<close>) is an input.
\<close>

fun geometries_loop ::
  "('p, 'r) externals \<Rightarrow> finder \<Rightarrow> coordination_geometry list \<Rightarrow> (string \<rightharpoonup> match_result) \<Rightarrow> 'r \<Rightarrow>
   error + ((string \<rightharpoonup> match_result) \<times> 'r)" where
  "geometries_loop ext self [] result_dict rng = Inr (result_dict, rng)"
| "geometries_loop ext self (geometry # rest) result_dict rng =
     (case from_cg geometry (centering_type self) (include_central_site_in_centroid self) of
        Inl e \<Rightarrow> Inl e
      | Inr g \<Rightarrow>
         (case finite_geometry g of
            None \<Rightarrow> Inl NonFinite
          | Some perfect_geometry \<Rightarrow>
             (case points_wocs_ctwocc perfect_geometry None of
                Inl e \<Rightarrow> Inl e
              | Inr points_perfect \<Rightarrow>
                 (case coordination_geometry_symmetry_measures ext self geometry False
                         points_perfect rng of
                    Inl e \<Rightarrow> Inl e
                  | Inr (cgsm, rng') \<Rightarrow>
                      if length (fst cgsm) > 0
                      then (case minimum_entry (linalg_svd ext) (local_geometry self)
                                   perfect_geometry cgsm of
                              Inl e \<Rightarrow> Inl e
                            | Inr entry \<Rightarrow>
                                geometries_loop ext self rest
                                  (result_dict(mp_symbol geometry \<mapsto> entry)) rng')
                      else geometries_loop ext self rest result_dict rng'))))"

definition get_coordination_symmetry_measures ::
  "('p, 'r) externals \<Rightarrow> finder \<Rightarrow> coordination_geometry list \<Rightarrow> 'r \<Rightarrow>
   error + ((string \<rightharpoonup> match_result) \<times> 'r)" where
  "get_coordination_symmetry_measures ext self test_geometries rng =
     geometries_loop ext self test_geometries Map.empty rng"

section \<open>A concrete site\<close>

text \<open>
  A small site on which closed statements are evaluated: the central site at the
  origin and the two neighbours (1,0,0) and (0,1,0), centred as \<open>LocalGeometryFinder\<close>
  sets it up by default (on the centroid, central site included).
\<close>

definition example_geometry :: "vec3 abstract_geometry" where
  "example_geometry =
     \<lparr> points_wcs_csc_view = [Vec3 0 0 0, Vec3 1 0 0, Vec3 0 1 0],
       points_wocs_csc_view = [Vec3 1 0 0, Vec3 0 1 0],
       points_wcs_ctwcc_view =
         [Vec3 (- 1 / 3) (- 1 / 3) 0, Vec3 (2 / 3) (- 1 / 3) 0, Vec3 (- 1 / 3) (2 / 3) 0],
       points_wocs_ctwcc_view = [Vec3 (2 / 3) (- 1 / 3) 0, Vec3 (- 1 / 3) (2 / 3) 0],
       points_wcs_ctwocc_view =
         [Vec3 (- 1 / 2) (- 1 / 2) 0, Vec3 (1 / 2) (- 1 / 2) 0, Vec3 (- 1 / 2) (1 / 2) 0],
       points_wocs_ctwocc_view = [Vec3 (1 / 2) (- 1 / 2) 0, Vec3 (- 1 / 2) (1 / 2) 0],
       centre = Vec3 (1 / 3) (1 / 3) 0,
       coords = [Vec3 (2 / 3) (- 1 / 3) 0, Vec3 (- 1 / 3) (2 / 3) 0],
       central_site = Vec3 (- 1 / 3) (- 1 / 3) 0 \<rparr>"

definition example_finder :: finder where
  "example_finder =
     \<lparr> permutations_safe_override = False, plane_safe_permutations = False,
       centering_type = Centroid, include_central_site_in_centroid = True,
       local_geometry = example_geometry \<rparr>"

text \<open>
  Stand-ins for the external utilities on this site. The plane through two neighbours
  and the central site contains both neighbours, so every separation is
  \<open>([], [0, 1], [])\<close>; the three points are not collinear; the generator returns the
  identity permutation.
\<close>

definition example_externals :: "(unit, unit) externals" where
  "example_externals =
     \<lparr> linalg_svd = svd_diagonal,
       random_permutation = (\<lambda>n rng. ([0 ..< n], rng)),
       collinear = (\<lambda>a b c tolerance. False),
       from_3points = (\<lambda>a b c. ()),
       from_npoints = (\<lambda>ps. ()),
       indices_separate = (\<lambda>plane ps tolerance. ([], [0, 1], [])),
       project_and_to2dim_ordered_indices = (\<lambda>plane ps. [0 ..< length ps]),
       sort_separation = (\<lambda>s. s),
       separation_in_list = (\<lambda>s seps. s \<in> set seps) \<rparr>"

text \<open>
  A separation-plane descriptor that this site matches (two points on the plane, none
  on either side) with the single table entry \<open>[0, 1]\<close>.
\<close>

definition example_sepplane :: algorithm where
  "example_sepplane =
     \<lparr> algorithm_type = SEPARATION_PLANE, algo_str = ''SeparationPlane'',
       permutations = [[0, 1]],
       minimum_number_of_points = 2, maximum_number_of_points = 3,
       plane_points = [0, 1], point_groups = [[], []],
       ordered_plane = False, ordered_point_groups = [False, False],
       safe_separation_permutations = [[0, 1]],
       argsorted_ref_separation_perm = [0, 1] \<rparr>"

text \<open>A reference polyhedron with the two vertices of the site itself.\<close>

definition example_polyhedron :: "algorithm list \<Rightarrow> coordination_geometry" where
  "example_polyhedron algos =
     \<lparr> mp_symbol = ''A:2'', algorithms = Some algos, coordination_number = 2,
       has_equivalent_indices = True, ref_permutation = (\<lambda>perm. perm),
       cg_points = [Vec3 1 0 0, Vec3 0 1 0], cg_central_site = Some (Vec3 0 0 0) \<rparr>"

text \<open>Variants of the descriptor: an explicit-permutations algorithm with the same table,
  an algorithm of a type the module does not know, a separation that this site never
  shows (one point on the plane), and an empty permutation table.\<close>

definition example_explicit :: algorithm where
  "example_explicit =
     example_sepplane\<lparr> algorithm_type := EXPLICIT_PERMUTATIONS, algo_str := ''ExplicitPermutations'' \<rparr>"

definition example_unrecognized :: algorithm where
  "example_unrecognized = example_sepplane\<lparr> algorithm_type := ''OTHER_ALGORITHM'' \<rparr>"

definition example_no_plane :: algorithm where
  "example_no_plane = example_sepplane\<lparr> plane_points := [0] \<rparr>"

definition example_empty_table :: algorithm where
  "example_empty_table = example_sepplane\<lparr> permutations := [] \<rparr>"

section \<open>Predicates of the statements\<close>

text \<open>
  The two index maps of a permutation entry are mutual inverses: the perfect-to-local
  map followed by the local-to-perfect map returns every index of the permutation, and
  the local-to-perfect map followed by the perfect-to-local map returns every value of it.
\<close>

definition mutual_inverses :: "nat list \<Rightarrow> index_map \<Rightarrow> index_map \<Rightarrow> bool" where
  "mutual_inverses perm l2p p2l =
     ((\<forall>i < length perm. \<exists>j. p2l i = Some j \<and> l2p j = Some i) \<and>
      (\<forall>j \<in> set perm. \<exists>i. l2p j = Some i \<and> p2l i = Some j))"

text \<open>The maps recorded by the search are the maps of the permutations recorded.\<close>

definition maps_consistent :: "search_state \<Rightarrow> bool" where
  "maps_consistent st =
     (local2perfect_maps st = map local2perfect_map (found_permutations st) \<and>
      perfect2local_maps st = map perfect2local_map (found_permutations st))"


section \<open>Properties of the alignment\<close>

lemma isexact_loop_same_length:
  "length ds = length ps \<Longrightarrow> \<exists>b. isexact_loop ds ps = Inr b"
  by (induction ds ps rule: isexact_loop.induct) auto

lemma H_loop_same_length:
  "length ds = length ps \<Longrightarrow> \<exists>H'. H_loop H ds ps = Inr H'"
  by (induction H ds ps rule: H_loop.induct) auto

lemma dots_loop_same_length:
  "length rcs = length ps \<Longrightarrow> dots_loop rcs ps = Inr (map2 dot rcs ps)"
  by (induction rcs ps rule: dots_loop.induct) auto

lemma csm_loop_same_length:
  "length pps = length rcs \<Longrightarrow>
   csm_loop s num denom pps rcs =
     Inr (foldl np_add num (map2 (\<lambda>r x. np_sumsq (np_diff r (np_scale s x))) pps rcs),
          denom + sum_list (map (\<lambda>r. dot r r) pps))"
  by (induction s num denom pps rcs rule: csm_loop.induct) (auto simp: algebra_simps)

lemma find_rotation_same_length:
  "length ds = length ps \<Longrightarrow> \<exists>rot. find_rotation svd ds ps = Inr rot"
proof -
  assume l: "length ds = length ps"
  obtain b where b: "isexact_loop ds ps = Inr b"
    using isexact_loop_same_length[OF l] by blast
  obtain H where H: "H_loop zeros33 ds ps = Inr H"
    using H_loop_same_length[OF l] by blast
  obtain U S Vt where "svd H = (U, S, Vt)"
    by (cases "svd H") auto
  with b H have "find_rotation svd ds ps =
      Inr (if b then eye3 else matrixMultiplication (transpose3 Vt) (transpose3 U))"
    by (simp add: find_rotation_def)
  then show ?thesis by (rule exI)
qed

lemma np_mul_comm: "np_mul a b = np_mul b a"
  by (cases a; cases b) (auto simp: signed_inf_def)


lemma dot_self_nonneg: "0 \<le> dot p p"
  by (cases p) simp

lemma dot_self_zero: "dot p p = 0 \<longleftrightarrow> p = zeros3"
proof (cases p)
  case (Vec3 a b c)
  have "a * a + b * b + c * c = 0 \<longleftrightarrow> a = 0 \<and> b = 0 \<and> c = 0"
    by (smt (verit) mult_eq_0_iff zero_le_square add_nonneg_nonneg)
  then show ?thesis using Vec3 by (simp add: zeros3_def)
qed


lemma sumsq_zero_iff: "sumsq ps = 0 \<longleftrightarrow> (\<forall>p \<in> set ps. p = zeros3)"
proof -
  have "sumsq ps = 0 \<longleftrightarrow> (\<forall>x \<in> set (map (\<lambda>p. dot p p) ps). x = 0)"
    unfolding sumsq_def by (rule sum_list_nonneg_eq_0_iff) (auto simp: dot_self_nonneg)
  then show ?thesis by (auto simp: dot_self_zero)
qed

lemma np_term_finite:
  "np_sumsq (np_diff p (np_scale (Finite c) x)) =
     Finite (dot (vsub p (vscale c x)) (vsub p (vscale c x)))"
  by (cases p; cases x) (simp add: np_sub_def)

lemma np_term_nan: "np_sumsq (np_diff p (np_scale NaN x)) = NaN"
  by (cases p; cases x) (simp add: np_sub_def)

lemma foldl_np_add_finite:
  "foldl np_add (Finite a) (map Finite xs) = Finite (a + sum_list xs)"
  by (induction xs arbitrary: a) (simp_all add: algebra_simps)

lemma foldl_np_add_nan: "foldl np_add NaN xs = NaN"
  by (induction xs) simp_all

lemma np_add_nan_right: "np_add a NaN = NaN"
  by (cases a) simp_all

lemma foldl_np_add_nan_terms:
  "xs \<noteq> [] \<Longrightarrow> \<forall>x \<in> set xs. x = NaN \<Longrightarrow> foldl np_add a xs = NaN"
  by (cases xs) (simp_all add: foldl_np_add_nan np_add_nan_right)


lemma csm_formula_finite:
  "csm_formula (Finite c) rotated reference =
     np_mul (Finite 100) (np_div (Finite (residual c rotated reference)) (Finite (sumsq reference)))"
proof -
  have "map2 (\<lambda>r x. np_sumsq (np_diff r (np_scale (Finite c) x))) reference rotated =
        map Finite (map2 (\<lambda>r x. dot (vsub r (vscale c x)) (vsub r (vscale c x))) reference rotated)"
    by (auto simp: np_term_finite)
  then show ?thesis
    by (simp add: csm_formula_def residual_def foldl_np_add_finite del: map_map)
qed

lemma csm_formula_nan:
  assumes "length rotated = length reference" "reference \<noteq> []"
  shows "csm_formula NaN rotated reference = NaN"
proof -
  let ?ts = "map2 (\<lambda>r x. np_sumsq (np_diff r (np_scale NaN x))) reference rotated"
  have "?ts \<noteq> []" using assms by (cases reference; cases rotated) auto
  moreover have "\<forall>t \<in> set ?ts. t = NaN" by (auto simp: np_term_nan)
  ultimately have "foldl np_add (Finite 0) ?ts = NaN"
    by (rule foldl_np_add_nan_terms)
  then show ?thesis by (simp add: csm_formula_def)
qed


lemma find_scaling_factor_same_length:
  assumes "length pd = length pp"
  shows "find_scaling_factor pd pp rot =
     Inr (np_div (Finite (sum_list (map2 dot (rotateCoords pd rot) pp)))
                 (Finite (sumsq (rotateCoords pd rot))), rotateCoords pd rot)"
proof -
  have "length (rotateCoords pd rot) = length pp"
    using assms by (simp add: rotateCoords_def)
  then show ?thesis
    by (simp add: find_scaling_factor_def Let_def dots_loop_same_length sumsq_def)
qed

lemma symmetry_measure_eq:
  assumes "length pd = length pp" "length pd \<noteq> 1" "pd \<noteq> []"
    and "find_rotation svd pd pp = Inr rot"
  shows "symmetry_measure svd pd pp =
     Inr (csm_formula (np_div (Finite (sum_list (map2 dot (rotateCoords pd rot) pp)))
                              (Finite (sumsq (rotateCoords pd rot))))
            (rotateCoords pd rot) pp)"
proof -
  have l: "length pp = length (rotateCoords pd rot)"
    using assms(1) by (simp add: rotateCoords_def)
  have "pp \<noteq> []" using assms by auto
  then show ?thesis
    using assms(2,4) find_scaling_factor_same_length[OF assms(1), of rot]
      csm_loop_same_length[OF l, of _ "Finite 0" 0]
    by (simp add: symmetry_measure_def csm_formula_def np_mul_comm sumsq_def)
qed













lemma map2_dot_zero:
  "\<forall>p \<in> set pp. p = zeros3 \<Longrightarrow> sum_list (map2 dot rc pp) = 0"
proof (induction rc arbitrary: pp)
  case Nil
  then show ?case by simp
next
  case (Cons r rc)
  then show ?case by (cases pp; cases r) (auto simp: zeros3_def)
qed

lemma residual_zero:
  "\<forall>p \<in> set pp. p = zeros3 \<Longrightarrow> residual 0 rc pp = 0"
proof (induction pp arbitrary: rc)
  case Nil
  then show ?case by (simp add: residual_def)
next
  case (Cons p pp)
  then show ?case
    by (cases rc; cases "hd rc") (auto simp: residual_def zeros3_def)
qed

lemma symmetry_measure_degenerate:
  assumes "length pd = length pp" "1 < length pp" "sumsq pp = 0"
  shows "symmetry_measure svd pd pp = Inr NaN"
proof -
  have z: "\<forall>p \<in> set pp. p = zeros3" using assms(3) by (simp add: sumsq_zero_iff)
  have n: "length pd \<noteq> 1" and ne: "pd \<noteq> []" and pne: "pp \<noteq> []" using assms by auto
  obtain rot where r: "find_rotation svd pd pp = Inr rot"
    using find_rotation_same_length[OF assms(1)] by blast
  let ?rc = "rotateCoords pd rot"
  have l: "length ?rc = length pp" using assms(1) by (simp add: rotateCoords_def)
  have m: "symmetry_measure svd pd pp =
      Inr (csm_formula (np_div (Finite 0) (Finite (sumsq ?rc))) ?rc pp)"
    using symmetry_measure_eq[OF assms(1) n ne r] by (simp add: map2_dot_zero[OF z])
  show ?thesis
  proof (cases "sumsq ?rc = 0")
    case True
    then show ?thesis using m by (simp add: csm_formula_nan[OF l pne])
  next
    case False
    then show ?thesis using m assms(3)
      by (simp add: csm_formula_finite residual_zero[OF z])
  qed
qed


section \<open>Properties of the index maps\<close>

lemma maps_loop_p2l_frame:
  "k < i \<Longrightarrow> snd (maps_loop i perm l2p p2l) k = p2l k"
  by (induction perm arbitrary: i l2p p2l) auto

lemma maps_loop_p2l:
  "k < length perm \<Longrightarrow> snd (maps_loop i perm l2p p2l) (i + k) = Some (perm ! k)"
proof (induction perm arbitrary: i k l2p p2l)
  case Nil
  then show ?case by simp
next
  case (Cons pp perm)
  show ?case
  proof (cases k)
    case 0
    then show ?thesis by (simp add: maps_loop_p2l_frame)
  next
    case (Suc k')
    with Cons.prems have "k' < length perm" by simp
    from Cons.IH[OF this, of "Suc i"] Suc show ?thesis by simp
  qed
qed

lemma maps_loop_l2p_frame:
  "j \<notin> set perm \<Longrightarrow> fst (maps_loop i perm l2p p2l) j = l2p j"
  by (induction perm arbitrary: i l2p p2l) auto

lemma maps_loop_l2p_distinct:
  "distinct perm \<Longrightarrow> k < length perm \<Longrightarrow>
   fst (maps_loop i perm l2p p2l) (perm ! k) = Some (i + k)"
proof (induction perm arbitrary: i k l2p p2l)
  case Nil
  then show ?case by simp
next
  case (Cons pp perm)
  show ?case
  proof (cases k)
    case 0
    with Cons.prems show ?thesis by (simp add: maps_loop_l2p_frame)
  next
    case (Suc k')
    with Cons.prems have "k' < length perm" "distinct perm" by simp_all
    from Cons.IH[OF this(2) this(1), of "Suc i"] Suc show ?thesis by simp
  qed
qed

lemma maps_loop_l2p_range:
  "j \<in> set perm \<Longrightarrow>
   \<exists>k < length perm. perm ! k = j \<and> fst (maps_loop i perm l2p p2l) j = Some (i + k)"
proof (induction perm arbitrary: i l2p p2l)
  case Nil
  then show ?case by simp
next
  case (Cons pp perm)
  show ?case
  proof (cases "j \<in> set perm")
    case True
    from Cons.IH[OF True, of "Suc i" "l2p(pp \<mapsto> i)" "p2l(i \<mapsto> pp)"]
    obtain k where "k < length perm" "perm ! k = j"
      "fst (maps_loop (Suc i) perm (l2p(pp \<mapsto> i)) (p2l(i \<mapsto> pp))) j = Some (Suc i + k)"
      by blast
    then have "Suc k < length (pp # perm) \<and> (pp # perm) ! Suc k = j \<and>
        fst (maps_loop i (pp # perm) l2p p2l) j = Some (i + Suc k)"
      by simp
    then show ?thesis by blast
  next
    case False
    with Cons.prems have "j = pp" by simp
    with False have "0 < length (pp # perm) \<and> (pp # perm) ! 0 = j \<and>
        fst (maps_loop i (pp # perm) l2p p2l) j = Some (i + 0)"
      by (simp add: maps_loop_l2p_frame)
    then show ?thesis by blast
  qed
qed

lemma perm_maps_inverse:
  assumes "distinct perm"
  shows "mutual_inverses perm (local2perfect_map perm) (perfect2local_map perm)"
proof -
  have a: "\<forall>i < length perm. \<exists>j. perfect2local_map perm i = Some j \<and> local2perfect_map perm j = Some i"
    using maps_loop_p2l[of _ perm 0 Map.empty Map.empty]
      maps_loop_l2p_distinct[OF assms, of _ 0 Map.empty Map.empty]
    by (simp add: perfect2local_map_def local2perfect_map_def)
  have b: "\<forall>j \<in> set perm. \<exists>i. local2perfect_map perm j = Some i \<and> perfect2local_map perm i = Some j"
  proof
    fix j assume "j \<in> set perm"
    from maps_loop_l2p_range[OF this, of 0 Map.empty Map.empty]
    obtain k where "k < length perm" "perm ! k = j" "local2perfect_map perm j = Some k"
      by (auto simp: local2perfect_map_def)
    moreover from this(1) have "perfect2local_map perm k = Some (perm ! k)"
      using maps_loop_p2l[of k perm 0 Map.empty Map.empty] by (simp add: perfect2local_map_def)
    ultimately show "\<exists>i. local2perfect_map perm j = Some i \<and> perfect2local_map perm i = Some j"
      by auto
  qed
  from a b show ?thesis by (simp add: mutual_inverses_def)
qed

lemma standard_loop_maps:
  "standard_loop sv lg label pp perms = Inr (csms, ps, algos, l2ps, p2ls) \<Longrightarrow>
   ps = perms \<and> length csms = length perms \<and> algos = replicate (length perms) label \<and>
   l2ps = map local2perfect_map perms \<and> p2ls = map perfect2local_map perms"
proof (induction perms arbitrary: csms ps algos l2ps p2ls)
  case Nil
  then show ?case by simp
next
  case (Cons perm perms)
  then show ?case
    by (auto split: sum.splits prod.splits)
qed

lemma fallback_loop_maps:
  "fallback_loop ext lg cn pp n rng = Inr ((csms, ps, algos, l2ps, p2ls), rng') \<Longrightarrow>
   length ps = n \<and> length csms = n \<and> algos = replicate n ''APPROXIMATE_FALLBACK'' \<and>
   l2ps = map local2perfect_map ps \<and> p2ls = map perfect2local_map ps"
proof (induction n arbitrary: rng csms ps algos l2ps p2ls rng')
  case 0
  then show ?case by simp
next
  case (Suc n)
  then show ?case
    by (auto split: sum.splits prod.splits)
qed


lemma maps_consistent_initial: "maps_consistent (initial_search_state tp)"
  by (simp add: maps_consistent_def initial_search_state_def)

lemma maps_consistent_record_plane:
  "maps_consistent st \<Longrightarrow> maps_consistent (record_plane st res)"
  by (auto simp: maps_consistent_def record_plane_def split: prod.splits option.splits)

lemma maps_consistent_combinations_loop:
  "combinations_loop ext self cg sepplane pp npoints cs st = Inr st' \<Longrightarrow>
   maps_consistent st \<Longrightarrow> maps_consistent st'"
proof (induction cs arbitrary: st)
  case Nil
  then show ?case by simp
next
  case (Cons c cs)
  then show ?case
    by (auto split: sum.splits option.splits intro: maps_consistent_record_plane)
qed

lemma maps_consistent_npoints_loop:
  "npoints_loop ext self cg sepplane pp ns st = Inr st' \<Longrightarrow>
   maps_consistent st \<Longrightarrow> maps_consistent st'"
proof (induction ns arbitrary: st)
  case Nil
  then show ?case by simp
next
  case (Cons n ns)
  then show ?case
    by (auto split: sum.splits if_splits dest: maps_consistent_combinations_loop)
qed

lemma separation_plane_maps:
  assumes "coordination_geometry_symmetry_measures_separation_plane ext self cg algo tp pp rng =
     Inr ((csms, ps, algos, l2ps, p2ls), tp', rng')"
  shows "l2ps = map local2perfect_map ps \<and> p2ls = map perfect2local_map ps"
proof (cases "npoints_loop ext self cg algo pp (npoints_range algo) (initial_search_state tp)")
  case (Inl e)
  with assms show ?thesis
    by (simp add: coordination_geometry_symmetry_measures_separation_plane_def)
next
  case (Inr st)
  have c: "maps_consistent st"
    using maps_consistent_npoints_loop[OF Inr maps_consistent_initial] .
  show ?thesis
  proof (cases "nplanes st = 0")
    case True
    with assms Inr obtain r where
      "fallback_loop ext (local_geometry self) (coordination_number cg) pp NRANDOM rng =
         Inr ((csms, ps, algos, l2ps, p2ls), r)"
      by (auto simp: coordination_geometry_symmetry_measures_separation_plane_def
          coordination_geometry_symmetry_measures_fallback_random_def split: sum.splits)
    from fallback_loop_maps[OF this] show ?thesis by simp
  next
    case False
    with assms Inr c show ?thesis
      by (auto simp: coordination_geometry_symmetry_measures_separation_plane_def
          maps_consistent_def)
  qed
qed

section \<open>Properties of the fallback and of the search\<close>













section \<open>Properties of the constructor, of the dispatch and of the deduplication\<close>

lemma AbstractGeometry_init_None:
  "AbstractGeometry_init None bare_coords ct incl = Inl TypeError"
  by (simp add: AbstractGeometry_init_def)

lemma AbstractGeometry_init_centre:
  assumes "AbstractGeometry_init (Some c) bare_coords Standard incl = Inr g"
  shows "centre g = (if length bare_coords < 5 then np_vec c else centroid_centre c bare_coords incl)"
  using assms
  by (auto simp: AbstractGeometry_init_def choose_centre_def Let_def split: if_splits)

lemma AbstractGeometry_init_include_conflict:
  assumes "ct = Central_site \<or> (ct = Standard \<and> length bare_coords < 5)"
  shows "AbstractGeometry_init (Some c) bare_coords ct True = Inl ValueError"
  using assms by (auto simp: AbstractGeometry_init_def choose_centre_def Let_def)

lemma safe_override_raises:
  "isl (coordination_geometry_symmetry_measures_safe_override self cg)"
  by (simp add: coordination_geometry_symmetry_measures_safe_override_def split: sum.splits)

lemma safe_override_dispatch:
  "permutations_safe_override self \<Longrightarrow>
   isl (coordination_geometry_symmetry_measures ext self cg tg pp rng)"
  using safe_override_raises[of self cg]
  by (auto simp: coordination_geometry_symmetry_measures_def Let_def split: sum.splits)

lemma algorithms_loop_unrecognized:
  "\<forall>a \<in> set algos. algorithm_type a \<noteq> EXPLICIT_PERMUTATIONS \<and> algorithm_type a \<noteq> SEPARATION_PLANE \<Longrightarrow>
   algorithms_loop ext self cg pp algos acc tp rng = Inr (acc, rng)"
  by (induction algos) simp_all

lemma unrecognized_no_error:
  assumes "\<not> permutations_safe_override self" "algorithms cg = Some algos"
    and "\<forall>a \<in> set algos. algorithm_type a \<noteq> EXPLICIT_PERMUTATIONS \<and> algorithm_type a \<noteq> SEPARATION_PLANE"
  shows "coordination_geometry_symmetry_measures ext self cg tg pp rng = Inr (([], [], [], [], []), rng)"
  using assms by (simp add: coordination_geometry_symmetry_measures_def algorithms_loop_unrecognized)



lemma sep_perms_loop_no_dedup:
  "sep_perms_loop sv lg cg separation_perm argref points_perfect None sep_perms =
     Inr (csms, perms, tp') \<Longrightarrow>
   length csms = length sep_perms \<and> length perms = length sep_perms \<and> tp' = None"
proof (induction sep_perms arbitrary: csms perms tp')
  case Nil
  then show ?case by simp
next
  case (Cons sp sps)
  then show ?case by (auto simp: Let_def split: sum.splits)
qed




lemma perm_maps_range:
  "\<forall>j \<in> set perm. \<exists>i. local2perfect_map perm j = Some i \<and> perfect2local_map perm i = Some j"
proof
  fix j assume "j \<in> set perm"
  from maps_loop_l2p_range[OF this, of 0 Map.empty Map.empty]
  obtain k where "k < length perm" "perm ! k = j" "local2perfect_map perm j = Some k"
    by (auto simp: local2perfect_map_def)
  moreover from this(1) have "perfect2local_map perm k = Some (perm ! k)"
    using maps_loop_p2l[of k perm 0 Map.empty Map.empty] by (simp add: perfect2local_map_def)
  ultimately show "\<exists>i. local2perfect_map perm j = Some i \<and> perfect2local_map perm i = Some j"
    by auto
qed


section \<open>The concrete site, evaluated\<close>

lemmas example_simps =
  coordination_geometry_symmetry_measures_separation_plane_def npoints_range_def
  upto.simps initial_search_state_def itertools_combinations_def example_finder_def
  example_geometry_def example_sepplane_def example_externals_def example_polyhedron_def
  example_explicit_def example_unrecognized_def example_no_plane_def example_empty_table_def
  trial_plane_def cg_csm_separation_plane_def DIST_TOLERANCES_def judge_separation_def
  py_index_def accepted_plane_def separation_permutation_def record_plane_def
  points_wocs_ctwocc_def view_wocs_def symmetry_measure_def find_rotation_def isclose_def
  find_scaling_factor_def rotateCoords_def eye3_def np_sub_def Let_def numeral_2_eq_2
  numeral_3_eq_3

lemmas example_site_simps =
  get_coordination_symmetry_measures_def from_cg_def AbstractGeometry_init_def
  choose_centre_def centroid_centre_def np_mean_def vsum_def zeros3_def finite_geometry_def
  finite_points_def coordination_geometry_symmetry_measures_def SEPARATION_PLANE_def
  EXPLICIT_PERMUTATIONS_def



lemma example_from_cg:
  "map_sum id finite_geometry (from_cg (example_polyhedron algos) Centroid True) =
     Inr (Some example_geometry)"
  by (simp add: example_site_simps example_polyhedron_def example_geometry_def np_sub_def Let_def)


section \<open>Claims about the alignment\<close>

text \<open>
  C1 (as amended). For every pair of equal-length, non-empty point lists: with exactly
  one point \<open>symmetry_measure\<close> returns 0; otherwise \<open>find_rotation\<close> returns a rotation,
  \<open>find_scaling_factor\<close> returns the scale and the rotated points for that rotation, and
  \<open>symmetry_measure\<close> returns 100 times the sum over i of the squared norm of
  (reference_i minus scale times rotated_i) divided by the sum over i of the squared norm
  of reference_i, in numpy's arithmetic; when the scale is finite and the reference is
  not degenerate this is the real number \<open>100 \<cdot> \<Sigma>|reference_i - c\<cdot>rotated_i|\<^sup>2 / \<Sigma>|reference_i|\<^sup>2\<close>.
\<close>

theorem symmetry_measure_formula:
  assumes "length pd = length pp" "pd \<noteq> []"
  shows "(length pd = 1 \<longrightarrow> symmetry_measure svd pd pp = Inr (Finite 0)) \<and>
         (length pd \<noteq> 1 \<longrightarrow>
            (\<exists>rot s rotated.
               find_rotation svd pd pp = Inr rot \<and>
               find_scaling_factor pd pp rot = Inr (s, rotated) \<and>
               symmetry_measure svd pd pp = Inr (csm_formula s rotated pp) \<and>
               (\<forall>c. s = Finite c \<and> sumsq pp \<noteq> 0 \<longrightarrow>
                  symmetry_measure svd pd pp =
                    Inr (Finite (100 * residual c rotated pp / sumsq pp)))))"
proof (intro conjI impI)
  assume "length pd = 1"
  then show "symmetry_measure svd pd pp = Inr (Finite 0)"
    by (simp add: symmetry_measure_def)
next
  assume n: "length pd \<noteq> 1"
  obtain rot where r: "find_rotation svd pd pp = Inr rot"
    using find_rotation_same_length[OF assms(1)] by blast
  let ?rc = "rotateCoords pd rot"
  let ?s = "np_div (Finite (sum_list (map2 dot ?rc pp))) (Finite (sumsq ?rc))"
  have f: "find_scaling_factor pd pp rot = Inr (?s, ?rc)"
    by (rule find_scaling_factor_same_length[OF assms(1)])
  have m: "symmetry_measure svd pd pp = Inr (csm_formula ?s ?rc pp)"
    by (rule symmetry_measure_eq[OF assms(1) n assms(2) r])
  have "\<forall>c. ?s = Finite c \<and> sumsq pp \<noteq> 0 \<longrightarrow>
          symmetry_measure svd pd pp = Inr (Finite (100 * residual c ?rc pp / sumsq pp))"
    using m by (auto simp: csm_formula_finite)
  with r f m show "\<exists>rot s rotated.
               find_rotation svd pd pp = Inr rot \<and>
               find_scaling_factor pd pp rot = Inr (s, rotated) \<and>
               symmetry_measure svd pd pp = Inr (csm_formula s rotated pp) \<and>
               (\<forall>c. s = Finite c \<and> sumsq pp \<noteq> 0 \<longrightarrow>
                  symmetry_measure svd pd pp =
                    Inr (Finite (100 * residual c rotated pp / sumsq pp)))"
    by blast
qed

text \<open>
  The theorem at the distorted points (2,0,0), (0,1,0) and the reference (1,0,0),
  (0,1,0): the scale is 3/5 and the measure is 10.
\<close>

theorem symmetry_measure_formula_witness:
  "length [Vec3 2 0 0, Vec3 0 1 0] = length [Vec3 1 0 0, Vec3 0 1 0] \<and>
   [Vec3 2 0 0, Vec3 0 1 0] \<noteq> [] \<and>
   find_scaling_factor [Vec3 2 0 0, Vec3 0 1 0] [Vec3 1 0 0, Vec3 0 1 0] eye3 =
     Inr (Finite (3 / 5), [Vec3 2 0 0, Vec3 0 1 0]) \<and>
   symmetry_measure svd_diagonal [Vec3 2 0 0, Vec3 0 1 0] [Vec3 1 0 0, Vec3 0 1 0] =
     Inr (Finite 10)"
  using symmetry_measure_formula
    [of "[Vec3 2 0 0, Vec3 0 1 0]" "[Vec3 1 0 0, Vec3 0 1 0]" svd_diagonal]
  by (simp add: symmetry_measure_def find_rotation_def find_scaling_factor_def isclose_def
      svd_diagonal_def sign1_def zeros33_def zeros3_def matrixMultiplication_def eye3_def rotateCoords_def
      np_sub_def Let_def)

text \<open>
  C1 as stated fails at the empty lists: the loop body never runs, \<open>num\<close> and \<open>denom\<close>
  are the Python floats \<open>0.0\<close>, and \<open>num / denom\<close> raises ZeroDivisionError.
\<close>

theorem symmetry_measure_empty_raises:
  "length ([] :: vec3 list) = length ([] :: vec3 list) \<and>
   symmetry_measure svd_diagonal [] [] = Inl ZeroDivisionError"
  by (simp add: symmetry_measure_def find_rotation_def find_scaling_factor_def rotateCoords_def)




text \<open>
  C3 (as amended). For every reference point list with more than one point whose squared
  norms sum to zero, and every distorted list of the same length, \<open>symmetry_measure\<close>
  raises no error: numpy's division by zero returns \<open>nan\<close>, and \<open>nan\<close> is the result.
\<close>

theorem symmetry_measure_degenerate_reference_nan:
  assumes "length pd = length pp" "1 < length pp" "sumsq pp = 0"
  shows "symmetry_measure svd pd pp = Inr NaN"
  using assms by (rule symmetry_measure_degenerate)

theorem symmetry_measure_degenerate_reference_nan_witness:
  "length [Vec3 1 2 3, Vec3 0 1 0, Vec3 0 0 1] = length [Vec3 0 0 0, Vec3 0 0 0, Vec3 0 0 0] \<and>
   1 < length [Vec3 0 0 0, Vec3 0 0 0, Vec3 0 0 0] \<and>
   sumsq [Vec3 0 0 0, Vec3 0 0 0, Vec3 0 0 0] = 0 \<and>
   symmetry_measure svd_diagonal [Vec3 1 2 3, Vec3 0 1 0, Vec3 0 0 1]
     [Vec3 0 0 0, Vec3 0 0 0, Vec3 0 0 0] = Inr NaN"
  using symmetry_measure_degenerate_reference_nan
    [of "[Vec3 1 2 3, Vec3 0 1 0, Vec3 0 0 1]" "[Vec3 0 0 0, Vec3 0 0 0, Vec3 0 0 0]" svd_diagonal]
  by (simp add: sumsq_def)

text \<open>
  C3 as stated fails at the reference (0,0,0), (0,0,0): a value is returned, no
  ArithmeticError is raised.
\<close>

theorem symmetry_measure_degenerate_no_error:
  "1 < length [Vec3 0 0 0, Vec3 0 0 0] \<and>
   sumsq [Vec3 0 0 0, Vec3 0 0 0] = 0 \<and>
   symmetry_measure svd_diagonal [Vec3 1 0 0, Vec3 0 1 0] [Vec3 0 0 0, Vec3 0 0 0] = Inr NaN"
  by (simp add: symmetry_measure_def find_rotation_def find_scaling_factor_def isclose_def
      svd_diagonal_def sign1_def zeros33_def zeros3_def matrixMultiplication_def eye3_def rotateCoords_def
      np_sub_def Let_def sumsq_def)

section \<open>Claims about the matcher\<close>

text \<open>
  C4. The claim: a polyhedron whose algorithms are all of a type the matcher does not
  recognise fails with an UnsupportedAlgorithm error, for that polyhedron only. The
  docstring of \<open>coordination_geometry_symmetry_measures\<close> promises a NotImplementedError
  as well. The code raises nothing: the loop passes over every such algorithm and the
  method returns five empty lists, leaving the generator untouched.
\<close>

theorem unrecognized_algorithms_return_empty:
  assumes "\<not> permutations_safe_override self" "algorithms cg = Some algos"
    and "\<forall>a \<in> set algos. algorithm_type a \<noteq> EXPLICIT_PERMUTATIONS \<and>
           algorithm_type a \<noteq> SEPARATION_PLANE"
  shows "coordination_geometry_symmetry_measures ext self cg tested_permutations_given pp rng =
           Inr (([], [], [], [], []), rng)"
  using assms by (rule unrecognized_no_error)

text \<open>
  On the concrete site, a polyhedron with one algorithm of type \<open>OTHER_ALGORITHM\<close>:
  no error, an empty result, and no entry for the polyhedron in the dictionary of the
  site.
\<close>

theorem unrecognized_algorithms_return_empty_witness:
  "\<not> permutations_safe_override example_finder \<and>
   algorithms (example_polyhedron [example_unrecognized]) = Some [example_unrecognized] \<and>
   algorithm_type example_unrecognized \<noteq> EXPLICIT_PERMUTATIONS \<and>
   algorithm_type example_unrecognized \<noteq> SEPARATION_PLANE \<and>
   coordination_geometry_symmetry_measures example_externals example_finder
     (example_polyhedron [example_unrecognized]) False
     [Vec3 (1 / 2) (- 1 / 2) 0, Vec3 (- 1 / 2) (1 / 2) 0] () = Inr (([], [], [], [], []), ()) \<and>
   get_coordination_symmetry_measures example_externals example_finder
     [example_polyhedron [example_unrecognized]] () = Inr (Map.empty, ())"
  using unrecognized_algorithms_return_empty
    [of example_finder "example_polyhedron [example_unrecognized]" "[example_unrecognized]"
       example_externals False "[Vec3 (1 / 2) (- 1 / 2) 0, Vec3 (- 1 / 2) (1 / 2) 0]" "()"]
  by (simp add: example_site_simps example_simps)






text \<open>
  C7. The claim holds for the choice of the centre and for the conflict between
  central-site centering and \<open>include_central_site_in_centroid\<close>. It fails where no
  central point is supplied: the constructor subtracts the central site from itself
  before any check, which for \<open>None\<close> raises TypeError, so the ValueError that lines 90
  and 108 would raise is never reached.
\<close>

theorem AbstractGeometry_init_without_central_site:
  "AbstractGeometry_init None bare_coords ct incl = Inl TypeError"
  by (rule AbstractGeometry_init_None)

text \<open>
  C8. The exhaustive matching over all permutations is
  \<open>coordination_geometry_symmetry_measures_safe_override\<close>; it calls a method that the
  class does not define, so it raises on every input and yields no measure that could
  be compared with the result of the separation-plane search.
\<close>

theorem safe_override_always_raises:
  "isl (coordination_geometry_symmetry_measures_safe_override self cg) \<and>
   isl (coordination_geometry_symmetry_measures ext
          (self\<lparr> permutations_safe_override := True \<rparr>) cg tested_permutations_given pp rng)"
  using safe_override_raises[of self cg]
    safe_override_dispatch[of "self\<lparr> permutations_safe_override := True \<rparr>" ext cg
      tested_permutations_given pp rng]
  by simp



text \<open>
  C10. For every permutation entry returned by a matching strategy (explicit
  permutations, separation plane, random fallback) the accompanying local-to-perfect
  and perfect-to-local maps are the maps of that entry, and they are mutual inverses:
  for every index of the permutation the perfect-to-local map followed by the
  local-to-perfect map returns the index, and the other way round for every value. The
  second holds for every entry; the first for an entry that is a permutation, in which
  no index occurs twice.
\<close>

theorem returned_maps_mutual_inverses:
  assumes "coordination_geometry_symmetry_measures_standard ext self algo pp =
             Inr (csms, ps, algos, l2ps, p2ls) \<or>
           (\<exists>tp rng tp' rng'.
              coordination_geometry_symmetry_measures_separation_plane ext self cg algo tp pp rng =
                Inr ((csms, ps, algos, l2ps, p2ls), tp', rng')) \<or>
           (\<exists>rng rng'.
              coordination_geometry_symmetry_measures_fallback_random ext self cg pp rng =
                Inr ((csms, ps, algos, l2ps, p2ls), rng'))"
  shows "length l2ps = length ps \<and> length p2ls = length ps \<and>
         (\<forall>k < length ps. l2ps ! k = local2perfect_map (ps ! k) \<and>
                           p2ls ! k = perfect2local_map (ps ! k)) \<and>
         (\<forall>k < length ps. \<forall>j \<in> set (ps ! k).
            \<exists>i. (l2ps ! k) j = Some i \<and> (p2ls ! k) i = Some j) \<and>
         (\<forall>k < length ps. distinct (ps ! k) \<longrightarrow> mutual_inverses (ps ! k) (l2ps ! k) (p2ls ! k))"
proof -
  have "l2ps = map local2perfect_map ps \<and> p2ls = map perfect2local_map ps"
    using assms standard_loop_maps[of "linalg_svd ext" "local_geometry self" "algo_str algo" pp
        "permutations algo" csms ps algos l2ps p2ls]
      separation_plane_maps[of ext self cg algo _ pp _ csms ps algos l2ps p2ls]
      fallback_loop_maps[of ext "local_geometry self" "coordination_number cg" pp NRANDOM _
        csms ps algos l2ps p2ls]
    by (auto simp: coordination_geometry_symmetry_measures_standard_def
        coordination_geometry_symmetry_measures_fallback_random_def)
  then show ?thesis using perm_maps_range by (simp add: perm_maps_inverse)
qed

theorem returned_maps_mutual_inverses_witness:
  "coordination_geometry_symmetry_measures_standard example_externals example_finder
     example_explicit [Vec3 (1 / 2) (- 1 / 2) 0, Vec3 (- 1 / 2) (1 / 2) 0] =
     Inr ([Finite 0], [[0, 1]], [''ExplicitPermutations''], [local2perfect_map [0, 1]],
          [perfect2local_map [0, 1]]) \<and>
   distinct [0, 1 :: nat] \<and>
   mutual_inverses [0, 1] (local2perfect_map [0, 1]) (perfect2local_map [0, 1])"
proof -
  have e: "coordination_geometry_symmetry_measures_standard example_externals example_finder
     example_explicit [Vec3 (1 / 2) (- 1 / 2) 0, Vec3 (- 1 / 2) (1 / 2) 0] =
     Inr ([Finite 0], [[0, 1]], [''ExplicitPermutations''], [local2perfect_map [0, 1]],
          [perfect2local_map [0, 1]])"
    by (simp add: coordination_geometry_symmetry_measures_standard_def example_simps)
  from returned_maps_mutual_inverses[of example_externals example_finder example_explicit
      "[Vec3 (1 / 2) (- 1 / 2) 0, Vec3 (- 1 / 2) (1 / 2) 0]" "[Finite 0]" "[[0, 1]]"
      "[''ExplicitPermutations'']" "[local2perfect_map [0, 1]]" "[perfect2local_map [0, 1]]"] e
  have "mutual_inverses [0, 1] (local2perfect_map [0, 1]) (perfect2local_map [0, 1])"
    by simp
  with e show ?thesis by simp
qed

end
